theory Spec2Isabelle
  imports Complex_Main
begin

chapter \<open>FENaPack: the backward-facing-step demo and the PCD scaling benchmark\<close>

text \<open>
  The development embeds two files of the repository:
  \<^item> \<^verbatim>\<open>demo/navier_flow/step3D_lu.py\<close>, a script (3D flow over a backward-facing step), and
  \<^item> \<^verbatim>\<open>test/bench/test_pcd_scaling.py\<close>, the mesh-scaling benchmark of the PCD
    preconditioner.
  Python floats are modelled by \<^typ>\<open>real\<close>: rounding is not modelled. A float that is
  not a number of the real line (an infinity, a NaN) is \<^const>\<open>None\<close> in a
  \<^typ>\<open>real option\<close>.
\<close>

section \<open>Definitions\<close>

subsection \<open>Mesh stretching (step3D\_lu.py, lines 64--77)\<close>

type_synonym point = "real \<times> real \<times> real"
type_synonym fpoint = "real option \<times> real option \<times> real option"

text \<open>
  The float power \<^verbatim>\<open>b**a\<close> of numpy. Every base the demo raises is an absolute value or
  a positive product. For a zero base the result is 1 for a zero exponent, 0 for a positive
  one and an infinity for a negative one; a negative base (which the demo never raises)
  with a fractional exponent is a NaN.
\<close>

definition npow :: "real \<Rightarrow> real \<Rightarrow> real option" where
  "npow b a =
     (if 0 < b then Some (b powr a)
      else if b = 0 then (if a = 0 then Some 1 else if 0 < a then Some 0 else None)
      else None)"

text \<open>\<^verbatim>\<open>transform_y = lambda y, alpha: np.sign(y)*(abs(y)**alpha)\<close>\<close>

definition transform_y :: "real \<Rightarrow> real \<Rightarrow> real option" where
  "transform_y y alpha = map_option (\<lambda>p. sgn y * p) (npow \<bar>y\<bar> alpha)"

text \<open>
  The body of the loop over \<^verbatim>\<open>x\<close>:
  \<^verbatim>\<open>if xi <= 0.0: x[it] = -1.0*abs(xi)**args.stretch
  else: x[it] = 5.0*(0.2*xi)**args.stretch\<close>
  (the power binds tighter than the product).
\<close>

definition transform_x :: "real \<Rightarrow> real \<Rightarrow> real option" where
  "transform_x xi alpha =
     (if xi \<le> 0.0 then map_option (\<lambda>p. - 1.0 * p) (npow \<bar>xi\<bar> alpha)
      else map_option (\<lambda>p. 5.0 * p) (npow (0.2 * xi) alpha))"

text \<open>
  The block under \<^verbatim>\<open>if args.stretch != 1.0\<close>: the columns \<^verbatim>\<open>x\<close> and \<^verbatim>\<open>y\<close> of
  the coordinate array are overwritten in place, \<^verbatim>\<open>z\<close> is left alone.
\<close>

definition stretching :: "real \<Rightarrow> point list \<Rightarrow> fpoint list" where
  "stretching stretch coords =
     (if stretch \<noteq> 1.0
      then map (\<lambda>(x, y, z). (transform_x x stretch, transform_y y stretch, Some z)) coords
      else map (\<lambda>(x, y, z). (Some x, Some y, Some z)) coords)"







subsection \<open>Command-line arguments of the demo (step3D\_lu.py, lines 39--56)\<close>

text \<open>
  The namespace \<^verbatim>\<open>args\<close> that \<^verbatim>\<open>parser.parse_args\<close> returns, one field for each
  \<^verbatim>\<open>dest\<close>, and the defaults of the \<^verbatim>\<open>add_argument\<close> calls.
\<close>

record args =
  level :: int
  stretch :: real
  viscosity :: real
  nls :: string
  pcd_strategy :: string
  save_results :: bool

definition default_args :: args where
  "default_args =
     \<lparr>level = 3, stretch = 1.0, viscosity = 0.02, nls = ''Picard'', pcd_strategy = ''ESW'',
      save_results = False\<rparr>"

definition nls_choices :: "string list" where
  "nls_choices = [''Newton'', ''Picard'']"

definition pcd_choices :: "string list" where
  "pcd_choices = [''BMR'', ''ESW'']"


subsection \<open>UFL expressions and forms\<close>

text \<open>
  The forms of both files are symbolic UFL expressions; they are embedded as syntax trees,
  built exactly as the Python operators build them (\<^verbatim>\<open>a + b - c\<close> is
  \<open>Sub (Add a b) c\<close>). The leaves are named after the Python variables:
  \<^verbatim>\<open>u, p = TrialFunctions(W)\<close>, \<^verbatim>\<open>v, q = TestFunctions(W)\<close>, \<^verbatim>\<open>w = Function(W)\<close>,
  \<^verbatim>\<open>u_, p_ = split(w)\<close>. \<open>Trial_w\<close> is the trial function of the whole space,
  the direction in which \<^verbatim>\<open>derivative(F, w)\<close> differentiates. \<open>Float c\<close> is a Python
  float that multiplies an expression, \<open>WSub i\<close> is \<^verbatim>\<open>w.sub(i)\<close>.
\<close>

datatype expr =
    Trial_w | Trial_u | Trial_p
  | Test_v | Test_q
  | Coef_w | Coef_u | Coef_p
  | WSub nat
  | Constant real
  | ConstantVec "real list"
  | Float real
  | Zero
  | FacetNormal
  | StabilizationParameterSD expr expr
  | Grad expr
  | Div expr
  | Inner expr expr
  | Dot expr expr
  | Outer expr expr
  | Mul expr expr
  | Add expr expr
  | Sub expr expr

text \<open>\<^verbatim>\<open>dx\<close>, and \<^verbatim>\<open>ds(i)\<close> of \<^verbatim>\<open>Measure("ds", subdomain_data=boundary_markers)\<close>.\<close>

datatype ufl_measure = Dx | Ds nat

text \<open>
  A form: an integrand times a measure, a form scaled by a constant (\<^verbatim>\<open>nu*ap\<close>), sums
  and differences of forms (\<^verbatim>\<open>fp -= ...\<close>), and \<^verbatim>\<open>derivative(F, w)\<close>.
\<close>

datatype form =
    Integral expr ufl_measure
  | FScale expr form
  | FAdd form form
  | FSub form form
  | Derivative form expr

text \<open>The measures a form integrates over, and those of them that are surface measures.\<close>

fun measures :: "form \<Rightarrow> ufl_measure list" where
  "measures (Integral e m) = [m]"
| "measures (FScale c f) = measures f"
| "measures (FAdd a b) = measures a @ measures b"
| "measures (FSub a b) = measures a @ measures b"
| "measures (Derivative f w) = measures f"

definition surface_measures :: "form \<Rightarrow> ufl_measure list" where
  "surface_measures f = filter (\<lambda>m. m \<noteq> Dx) (measures f)"







text \<open>
  The Gateaux derivative that \<^verbatim>\<open>derivative(F, w)\<close> stands for: the derivative with
  respect to the iterate \<^verbatim>\<open>w\<close> in the direction of the trial function. The parts
  \<^verbatim>\<open>u_\<close>, \<^verbatim>\<open>p_\<close> of \<^verbatim>\<open>w\<close> become \<^verbatim>\<open>u\<close>, \<^verbatim>\<open>p\<close>; products follow the product rule;
  every other leaf is a coefficient of its own and is held fixed.
\<close>

fun gateaux :: "expr \<Rightarrow> expr" where
  "gateaux Coef_w = Trial_w"
| "gateaux Coef_u = Trial_u"
| "gateaux Coef_p = Trial_p"
| "gateaux (Grad a) = Grad (gateaux a)"
| "gateaux (Div a) = Div (gateaux a)"
| "gateaux (Inner a b) = Add (Inner (gateaux a) b) (Inner a (gateaux b))"
| "gateaux (Dot a b) = Add (Dot (gateaux a) b) (Dot a (gateaux b))"
| "gateaux (Outer a b) = Add (Outer (gateaux a) b) (Outer a (gateaux b))"
| "gateaux (Mul a b) = Add (Mul (gateaux a) b) (Mul a (gateaux b))"
| "gateaux (Add a b) = Add (gateaux a) (gateaux b)"
| "gateaux (Sub a b) = Sub (gateaux a) (gateaux b)"
| "gateaux _ = Zero"

text \<open>
  An integrand as a signed sum of products: sums and differences are split, the products
  are multiplied out, and a product with a zero factor is dropped.
\<close>

definition times ::
  "(expr \<Rightarrow> expr \<Rightarrow> expr) \<Rightarrow> (int \<times> expr) list \<Rightarrow> (int \<times> expr) list \<Rightarrow> (int \<times> expr) list" where
  "times c xs ys = concat (map (\<lambda>(s, a). map (\<lambda>(t, b). (s * t, c a b)) ys) xs)"

fun monomials :: "expr \<Rightarrow> (int \<times> expr) list" where
  "monomials Zero = []"
| "monomials (Add a b) = monomials a @ monomials b"
| "monomials (Sub a b) = monomials a @ map (\<lambda>(s, e). (- s, e)) (monomials b)"
| "monomials (Grad a) = map (\<lambda>(s, e). (s, Grad e)) (monomials a)"
| "monomials (Div a) = map (\<lambda>(s, e). (s, Div e)) (monomials a)"
| "monomials (Inner a b) = times Inner (monomials a) (monomials b)"
| "monomials (Dot a b) = times Dot (monomials a) (monomials b)"
| "monomials (Outer a b) = times Outer (monomials a) (monomials b)"
| "monomials (Mul a b) = times Mul (monomials a) (monomials b)"
| "monomials e = [(1, e)]"

text \<open>
  The terms of a Jacobian form: those of its integrand, and for \<^verbatim>\<open>derivative(F, w)\<close>
  those of the Gateaux derivative of the integrand of \<^verbatim>\<open>F\<close>.
\<close>

fun jacobian_terms :: "form \<Rightarrow> (int \<times> expr) list" where
  "jacobian_terms (Integral e m) = monomials e"
| "jacobian_terms (Derivative (Integral e m) w) = monomials (gateaux e)"
| "jacobian_terms _ = []"

text \<open>
  The convecting velocities of an expression: the fields \<open>b\<close> of its terms
  \<^verbatim>\<open>dot(grad(a), b)\<close> and \<^verbatim>\<open>div(outer(a, b))\<close>, which transport \<open>a\<close>.
\<close>

fun convecting :: "expr \<Rightarrow> expr list" where
  "convecting (Dot (Grad a) b) = b # convecting a @ convecting b"
| "convecting (Div (Outer a b)) = b # convecting a @ convecting b"
| "convecting (Grad a) = convecting a"
| "convecting (Div a) = convecting a"
| "convecting (Inner a b) = convecting a @ convecting b"
| "convecting (Dot a b) = convecting a @ convecting b"
| "convecting (Outer a b) = convecting a @ convecting b"
| "convecting (Mul a b) = convecting a @ convecting b"
| "convecting (Add a b) = convecting a @ convecting b"
| "convecting (Sub a b) = convecting a @ convecting b"
| "convecting _ = []"


subsection \<open>Boundaries and boundary conditions\<close>

text \<open>
  \<^verbatim>\<open>DirichletBC(space, value, boundary_markers, marker)\<close>. The space is the path of
  \<^verbatim>\<open>sub\<close> calls from \<^verbatim>\<open>W\<close>: \<^verbatim>\<open>W.sub(0)\<close> (velocity) is \<open>[0]\<close>,
  \<^verbatim>\<open>W.sub(0).sub(2)\<close> is \<open>[0, 2]\<close>, \<^verbatim>\<open>W.sub(1)\<close> (pressure) is \<open>[1]\<close>.
\<close>

datatype bc_value = ConstantValue "real list" | ExpressionValue "string list"

record dirichlet_bc =
  bc_space :: "nat list"
  bc_value :: bc_value
  bc_marker :: nat

text \<open>
  The sub-domains of the demo (lines 87--104) as predicates of a point and of
  \<^verbatim>\<open>on_boundary\<close>. \<^verbatim>\<open>near(x, x0)\<close> is DOLFIN's comparison up to
  \<^verbatim>\<open>DOLFIN_EPS = 3.0e-16\<close> (a function of the library).
\<close>

definition near :: "real \<Rightarrow> real \<Rightarrow> bool" where
  "near x x0 \<longleftrightarrow> x0 - 3 / 10 ^ 16 \<le> x \<and> x \<le> x0 + 3 / 10 ^ 16"

definition Gamma0_inside :: "point \<Rightarrow> bool \<Rightarrow> bool" where
  "Gamma0_inside x on_boundary =
     (case x of (x0, x1, x2) \<Rightarrow>
        ((near x1 0.0 \<and> x0 \<le> 0.0) \<or> (near x0 0.0 \<and> x1 \<le> 0.0) \<or> near x1 (- 1.0) \<or> near x1 1.0)
        \<and> on_boundary)"

definition Gamma1_inside :: "point \<Rightarrow> bool \<Rightarrow> bool" where
  "Gamma1_inside x on_boundary = (case x of (x0, x1, x2) \<Rightarrow> near x0 (- 1.0) \<and> on_boundary)"

definition Gamma2_inside :: "point \<Rightarrow> bool \<Rightarrow> bool" where
  "Gamma2_inside x on_boundary = (case x of (x0, x1, x2) \<Rightarrow> near x0 5.0 \<and> on_boundary)"

definition Gamma3_inside :: "point \<Rightarrow> bool \<Rightarrow> bool" where
  "Gamma3_inside x on_boundary =
     (case x of (x0, x1, x2) \<Rightarrow> (near x2 0.0 \<or> near x2 1.0) \<and> on_boundary)"

text \<open>
  Lines 106--111: every facet is marked 4, then the four sub-domains mark theirs with 0, 1,
  2, 3 in this order, a later mark overwriting an earlier one. (The marker of a facet all
  of whose points answer the four tests alike.)
\<close>

definition boundary_markers :: "point \<Rightarrow> bool \<Rightarrow> nat" where
  "boundary_markers x on_boundary =
     (if Gamma3_inside x on_boundary then 3
      else if Gamma2_inside x on_boundary then 2
      else if Gamma1_inside x on_boundary then 1
      else if Gamma0_inside x on_boundary then 0
      else 4)"

text \<open>
  The benchmark (\<^verbatim>\<open>create_function_space\<close>, lines 39--53) marks every facet 3, then the
  facets on the boundary 0 (no-slip), those at \<open>x0 = -1\<close> 1 (``inlet facets'') and those
  at \<open>x0 = 5\<close> 2 (``outlet facets'').
\<close>

definition bench_boundary_markers :: "real \<times> real \<Rightarrow> bool \<Rightarrow> nat" where
  "bench_boundary_markers x on_boundary =
     (case x of (x0, x1) \<Rightarrow>
        if on_boundary \<and> near x0 5.0 then 2
        else if on_boundary \<and> near x0 (- 1.0) then 1
        else if on_boundary then 0
        else 3)"

text \<open>
  The inflow boundary is the plane \<open>x0 = -1\<close>, where the inflow profile is imposed; the
  outflow boundary is the plane \<open>x0 = 5\<close>. Both files mark them 1 and 2.
\<close>

definition inlet_marker :: nat where
  "inlet_marker = 1"

definition outlet_marker :: nat where
  "outlet_marker = 2"

text \<open>Lines 112--126 of the demo.\<close>

definition bc0 :: dirichlet_bc where
  "bc0 = \<lparr>bc_space = [0], bc_value = ConstantValue [0.0, 0.0, 0.0], bc_marker = 0\<rparr>"

definition bc1 :: dirichlet_bc where
  "bc1 = \<lparr>bc_space = [0],
           bc_value = ExpressionValue [''4.0*x[1]*(1.0 - x[1])'', ''0.0'', ''0.0''],
           bc_marker = 1\<rparr>"

definition bc3 :: dirichlet_bc where
  "bc3 = \<lparr>bc_space = [0, 2], bc_value = ConstantValue [0.0], bc_marker = 3\<rparr>"

definition PCD_BND_MARKER :: "string \<Rightarrow> nat" where
  "PCD_BND_MARKER strategy = (if strategy = ''ESW'' then 2 else 1)"

definition bc_art :: "string \<Rightarrow> dirichlet_bc" where
  "bc_art strategy =
     \<lparr>bc_space = [1], bc_value = ConstantValue [0.0], bc_marker = PCD_BND_MARKER strategy\<rparr>"

definition bcs :: "dirichlet_bc list" where
  "bcs = [bc0, bc1, bc3]"

definition bcs_pcd :: "string \<Rightarrow> dirichlet_bc list" where
  "bcs_pcd strategy = [bc_art strategy]"


subsection \<open>The variational problem of the demo (step3D\_lu.py, lines 133--176)\<close>

text \<open>The residual \<^verbatim>\<open>F\<close>, with \<^verbatim>\<open>nu = Constant(args.viscosity)\<close> and a zero body force.\<close>

definition demo_F :: "real \<Rightarrow> form" where
  "demo_F visc = Integral
     (Sub (Sub (Sub (Add
        (Mul (Constant visc) (Inner (Grad Coef_u) (Grad Test_v)))
        (Inner (Dot (Grad Coef_u) Coef_u) Test_v))
        (Mul Coef_p (Div Test_v)))
        (Mul Test_q (Div Coef_u)))
        (Inner (ConstantVec [0.0, 0.0, 0.0]) Test_v)) Dx"

text \<open>The Newton/Picard correction \<^verbatim>\<open>J\<close> (lines 150--158).\<close>

definition demo_J :: "string \<Rightarrow> real \<Rightarrow> form" where
  "demo_J nls_type visc =
     (if nls_type = ''Newton'' then Derivative (demo_F visc) Coef_w
      else Integral
        (Sub (Sub (Add
          (Mul (Constant visc) (Inner (Grad Trial_u) (Grad Test_v)))
          (Inner (Dot (Grad Trial_u) Coef_u) Test_v))
          (Mul Trial_p (Div Test_v)))
          (Mul Test_q (Div Trial_u))) Dx)"

text \<open>The forms of the PCD preconditioner (lines 164--167).\<close>

definition demo_mp :: form where
  "demo_mp = Integral (Mul Trial_p Test_q) Dx"

definition demo_ap :: form where
  "demo_ap = Integral (Inner (Grad Trial_p) (Grad Test_q)) Dx"

definition demo_kp :: form where
  "demo_kp = Integral (Mul (Dot (Grad Trial_p) Coef_u) Test_q) Dx"

definition demo_fp :: "real \<Rightarrow> form" where
  "demo_fp visc = FAdd (FScale (Constant visc) demo_ap) demo_kp"

text \<open>The surface term of line 171, \<^verbatim>\<open>(inner(u_, n)*p*q)*ds(1)\<close>.\<close>

definition demo_robin :: form where
  "demo_robin = Integral (Mul (Mul (Inner Coef_u FacetNormal) Trial_p) Test_q) (Ds 1)"

text \<open>
  The problem handed to the nonlinear solver: the positional arguments \<^verbatim>\<open>F, bcs, J\<close>
  (and \<^verbatim>\<open>J_pc\<close> in the benchmark) and the keyword arguments, \<^const>\<open>None\<close> for a
  keyword that the call does not pass.
\<close>

record pcd_problem =
  prob_F :: form
  prob_bcs :: "dirichlet_bc list"
  prob_J :: form
  prob_J_pc :: "form option"
  prob_ap :: form
  prob_fp :: "form option"
  prob_kp :: "form option"
  prob_mp :: form
  prob_bcs_pcd :: "dirichlet_bc list"
  prob_nu :: "real option"

text \<open>The variable \<^verbatim>\<open>fp\<close> after lines 167--171, and the problem of lines 170--176.\<close>

definition demo_fp_final :: "string \<Rightarrow> real \<Rightarrow> form" where
  "demo_fp_final strategy visc =
     (if strategy = ''ESW'' then FSub (demo_fp visc) demo_robin else demo_fp visc)"

definition demo_problem :: "args \<Rightarrow> pcd_problem" where
  "demo_problem a =
     (if pcd_strategy a = ''ESW''
      then \<lparr>prob_F = demo_F (viscosity a), prob_bcs = bcs, prob_J = demo_J (nls a) (viscosity a),
            prob_J_pc = None, prob_ap = demo_ap,
            prob_fp = Some (demo_fp_final (pcd_strategy a) (viscosity a)), prob_kp = None,
            prob_mp = demo_mp, prob_bcs_pcd = bcs_pcd (pcd_strategy a), prob_nu = None\<rparr>
      else \<lparr>prob_F = demo_F (viscosity a), prob_bcs = bcs, prob_J = demo_J (nls a) (viscosity a),
            prob_J_pc = None, prob_ap = demo_ap,
            prob_fp = None, prob_kp = Some demo_kp,
            prob_mp = demo_mp, prob_bcs_pcd = bcs_pcd (pcd_strategy a),
            prob_nu = Some (viscosity a)\<rparr>)"


subsection \<open>The forms of the benchmark (test\_pcd\_scaling.py, lines 63--148)\<close>

datatype py_error = UnboundLocalError | ZeroDivisionError | AssertionError

text \<open>
  \<^verbatim>\<open>alpha\<close> is wrapped in a \<^verbatim>\<open>Constant\<close> unless it is 1.0, when it stays a Python
  float and \<^verbatim>\<open>1.0-alpha\<close> is computed by Python.
\<close>

definition bench_alpha :: "real \<Rightarrow> expr" where
  "bench_alpha alpha = (if alpha \<noteq> 1.0 then Constant alpha else Float alpha)"

definition bench_one_minus_alpha :: "real \<Rightarrow> expr" where
  "bench_one_minus_alpha alpha =
     (if alpha \<noteq> 1.0 then Sub (Float 1.0) (Constant alpha) else Float (1.0 - alpha))"

definition bench_F :: "real \<Rightarrow> real \<Rightarrow> form" where
  "bench_F nu alpha = Integral
     (Sub (Sub (Add (Add
        (Mul (Constant nu) (Inner (Grad Coef_u) (Grad Test_v)))
        (Mul (bench_alpha alpha) (Inner (Dot (Grad Coef_u) Coef_u) Test_v)))
        (Mul (bench_one_minus_alpha alpha) (Inner (Div (Outer Coef_u Coef_u)) Test_v)))
        (Mul Coef_p (Div Test_v)))
        (Mul Test_q (Div Coef_u))) Dx"

definition bench_J_picard :: "real \<Rightarrow> real \<Rightarrow> form" where
  "bench_J_picard nu alpha = Integral
     (Sub (Sub (Add (Add
        (Mul (Constant nu) (Inner (Grad Trial_u) (Grad Test_v)))
        (Mul (bench_alpha alpha) (Inner (Dot (Grad Trial_u) Coef_u) Test_v)))
        (Mul (bench_one_minus_alpha alpha) (Inner (Div (Outer Trial_u Coef_u)) Test_v)))
        (Mul Trial_p (Div Test_v)))
        (Mul Test_q (Div Trial_u))) Dx"

text \<open>
  \<^verbatim>\<open>J\<close> is bound in the branches \<^verbatim>\<open>"picard"\<close> and \<^verbatim>\<open>"newton"\<close> only, and
  \<^verbatim>\<open>J_pc\<close> in the branches \<^verbatim>\<open>"iterative"\<close> and \<^verbatim>\<open>"direct"\<close> only: with any other
  tag the first use of the unbound name raises.
\<close>

definition bench_J :: "real \<Rightarrow> real \<Rightarrow> string \<Rightarrow> form option" where
  "bench_J nu alpha nls_type =
     (if nls_type = ''picard'' then Some (bench_J_picard nu alpha)
      else if nls_type = ''newton'' then Some (Derivative (bench_F nu alpha) Coef_w)
      else None)"

definition bench_bc0 :: dirichlet_bc where
  "bench_bc0 = \<lparr>bc_space = [0], bc_value = ConstantValue [0.0, 0.0], bc_marker = 0\<rparr>"

definition bench_bc1 :: dirichlet_bc where
  "bench_bc1 = \<lparr>bc_space = [0],
                 bc_value = ExpressionValue [''4.0*x[1]*(1.0 - x[1])'', ''0.0''],
                 bc_marker = 1\<rparr>"

definition bench_J_pc :: "real \<Rightarrow> form \<Rightarrow> form" where
  "bench_J_pc nu J = FAdd J (Integral
     (Mul (StabilizationParameterSD (WSub 0) (Constant nu))
          (Inner (Dot (Grad Trial_u) Coef_u) (Dot (Grad Test_v) Coef_u))) Dx)"

definition create_forms ::
  "real \<Rightarrow> real \<Rightarrow> string \<Rightarrow> string \<Rightarrow>
     py_error + (form \<times> dirichlet_bc list \<times> form \<times> form option)" where
  "create_forms nu alpha nls_type ls =
     (case bench_J nu alpha nls_type of
        None \<Rightarrow> Inl UnboundLocalError
      | Some J \<Rightarrow>
          if ls = ''iterative''
          then Inr (bench_F nu alpha, [bench_bc0, bench_bc1], J, Some (bench_J_pc nu J))
          else if ls = ''direct''
          then Inr (bench_F nu alpha, [bench_bc0, bench_bc1], J, None)
          else Inl UnboundLocalError)"

text \<open>The PCD operators of \<^verbatim>\<open>create_pcd_problem\<close> (lines 136--143).\<close>

definition bench_mp :: "real \<Rightarrow> form" where
  "bench_mp nu = Integral (Mul (Mul (Constant (1.0 / nu)) Trial_p) Test_q) Dx"

definition bench_kp :: "real \<Rightarrow> form" where
  "bench_kp nu = Integral (Mul (Mul (Constant (1.0 / nu)) (Dot (Grad Trial_p) Coef_u)) Test_q) Dx"

definition bench_ap :: form where
  "bench_ap = Integral (Inner (Grad Trial_p) (Grad Test_q)) Dx"

definition bench_robin :: "real \<Rightarrow> form" where
  "bench_robin nu =
     Integral (Mul (Mul (Mul (Constant (1.0 / nu)) (Dot Coef_u FacetNormal)) Trial_p) Test_q) (Ds 1)"

definition bench_bc_pcd :: "string \<Rightarrow> dirichlet_bc option" where
  "bench_bc_pcd pcd_variant =
     (if pcd_variant = ''BRM1''
      then Some \<lparr>bc_space = [1], bc_value = ConstantValue [0.0], bc_marker = 1\<rparr>
      else if pcd_variant = ''BRM2''
      then Some \<lparr>bc_space = [1], bc_value = ConstantValue [0.0], bc_marker = 2\<rparr>
      else None)"

text \<open>
  \<^verbatim>\<open>create_pcd_problem\<close>. \<^verbatim>\<open>1.0/nu\<close> is a Python division: it raises for
  \<^verbatim>\<open>nu = 0\<close> (line 136), before the unbound \<^verbatim>\<open>bc_pcd\<close> of an unknown variant is
  used (line 146). The benchmark passes the one condition \<^verbatim>\<open>bc_pcd\<close> itself as
  \<^verbatim>\<open>bcs_pcd\<close>; it is the one element of the list here.
\<close>

definition create_pcd_problem ::
  "form \<Rightarrow> dirichlet_bc list \<Rightarrow> form \<Rightarrow> form option \<Rightarrow> real \<Rightarrow> string \<Rightarrow>
     py_error + pcd_problem" where
  "create_pcd_problem F_form bc_list J J_pc nu pcd_variant =
     (if nu = 0 then Inl ZeroDivisionError
      else case bench_bc_pcd pcd_variant of
        None \<Rightarrow> Inl UnboundLocalError
      | Some bc_pcd \<Rightarrow>
          Inr \<lparr>prob_F = F_form, prob_bcs = bc_list, prob_J = J, prob_J_pc = J_pc,
               prob_ap = bench_ap, prob_fp = None,
               prob_kp = Some (if pcd_variant = ''BRM2''
                               then FSub (bench_kp nu) (bench_robin nu) else bench_kp nu),
               prob_mp = bench_mp nu, prob_bcs_pcd = [bc_pcd], prob_nu = None\<rparr>)"


subsection \<open>The PCD preconditioner\<close>





subsection \<open>What a problem says about its PCD variant\<close>

text \<open>
  The boundaries that carry the artificial Dirichlet condition for the pressure, and the
  surface measures of the PCD operators of a problem.
\<close>

definition pcd_bc_markers :: "pcd_problem \<Rightarrow> nat list" where
  "pcd_bc_markers P = map bc_marker (prob_bcs_pcd P)"

definition pcd_surface_measures :: "pcd_problem \<Rightarrow> ufl_measure list" where
  "pcd_surface_measures P =
     (case prob_fp P of Some f \<Rightarrow> surface_measures f | None \<Rightarrow> []) @
     (case prob_kp P of Some k \<Rightarrow> surface_measures k | None \<Rightarrow> [])"

text \<open>
  The convecting velocities of a Jacobian, and the terms that are left of a list of terms
  when the convection is frozen: those in which the trial function convects nothing.
\<close>

definition convecting_velocities :: "form \<Rightarrow> expr list" where
  "convecting_velocities J = concat (map (\<lambda>(s, t). convecting t) (jacobian_terms J))"

definition frozen_convection :: "(int \<times> expr) list \<Rightarrow> (int \<times> expr) list" where
  "frozen_convection ts = filter (\<lambda>(s, t). Trial_u \<notin> set (convecting t)) ts"


subsection \<open>Solver configuration\<close>

text \<open>
  A value of a parameter or of a PETSc option, and the two kinds of tables that hold them.
  A parameter of DOLFIN is reached by a path of keys:
  \<^verbatim>\<open>parameters["preconditioner"]["side"]\<close> is the path \<open>[''preconditioner'', ''side'']\<close>.
\<close>

datatype pvalue = PBool bool | PInt int | PReal real | PStr string

type_synonym parameters = "string list \<Rightarrow> pvalue option"
type_synonym options_db = "string \<Rightarrow> pvalue option"

text \<open>
  The field-split solver of the demo: the Krylov method named at construction
  (\<^verbatim>\<open>FieldSplitSolver(W, "gmres")\<close>) and its parameters. The defaults of the library are a
  parameter.
\<close>

record field_split_solver =
  fs_krylov_type :: string
  fs_parameters :: parameters

definition FieldSplitSolver :: "parameters \<Rightarrow> string \<Rightarrow> field_split_solver" where
  "FieldSplitSolver defaults ksp_type = \<lparr>fs_krylov_type = ksp_type, fs_parameters = defaults\<rparr>"

text \<open>Lines 179--191 of the demo.\<close>

definition demo_inner_solver :: "parameters \<Rightarrow> field_split_solver" where
  "demo_inner_solver defaults =
     (let inner_solver = FieldSplitSolver defaults ''gmres''
      in inner_solver\<lparr>fs_parameters := (fs_parameters inner_solver)
           ([''monitor_convergence''] \<mapsto> PBool True,
            [''relative_tolerance''] \<mapsto> PReal 0.000001,
            [''maximum_iterations''] \<mapsto> PInt 100,
            [''error_on_nonconvergence''] \<mapsto> PBool False,
            [''gmres'', ''restart''] \<mapsto> PInt 100,
            [''preconditioner'', ''side''] \<mapsto> PStr ''right'',
            [''preconditioner'', ''fieldsplit'', ''type''] \<mapsto> PStr ''schur'',
            [''preconditioner'', ''fieldsplit'', ''schur'', ''fact_type''] \<mapsto> PStr ''upper'',
            [''preconditioner'', ''fieldsplit'', ''schur'', ''precondition''] \<mapsto> PStr ''user'')\<rparr>)"

text \<open>
  Lines 194--213: the options of the two sub-solvers, set on the tables that
  \<^verbatim>\<open>get_subopts\<close> returns.
\<close>

definition demo_OptDB_00 :: "options_db \<Rightarrow> options_db" where
  "demo_OptDB_00 db = db
     (''ksp_type'' \<mapsto> PStr ''preonly'',
      ''pc_type'' \<mapsto> PStr ''lu'',
      ''pc_factor_mat_solver_package'' \<mapsto> PStr ''mumps'')"

definition demo_OptDB_11 :: "options_db \<Rightarrow> string \<Rightarrow> options_db" where
  "demo_OptDB_11 db strategy = db
     (''ksp_type'' \<mapsto> PStr ''preonly'',
      ''pc_type'' \<mapsto> PStr ''python'',
      ''pc_python_type'' \<mapsto> PStr (''fenapack.PCDPC'' @ ''_'' @ strategy),
      ''PCD_Ap_ksp_type'' \<mapsto> PStr ''preonly'',
      ''PCD_Ap_pc_type'' \<mapsto> PStr ''lu'',
      ''PCD_Ap_pc_factor_mat_solver_package'' \<mapsto> PStr ''mumps'',
      ''PCD_Mp_ksp_type'' \<mapsto> PStr ''preonly'',
      ''PCD_Mp_pc_type'' \<mapsto> PStr ''lu'',
      ''PCD_Mp_pc_factor_mat_solver_package'' \<mapsto> PStr ''mumps'')"

text \<open>Lines 216--220: the parameters of the nonlinear solver.\<close>

definition demo_solver_parameters :: "parameters \<Rightarrow> parameters" where
  "demo_solver_parameters defaults = defaults
     ([''relative_tolerance''] \<mapsto> PReal 0.00001,
      [''maximum_iterations''] \<mapsto> PInt 25,
      [''error_on_nonconvergence''] \<mapsto> PBool False)"

text \<open>
  \<^verbatim>\<open>create_solver\<close> of the benchmark (lines 151--192). \<^verbatim>\<open>PETScOptions\<close> is the global
  table of options, passed in and returned; the random part of the prefix is a parameter.
  A value of \<^verbatim>\<open>ls\<close> other than the two known ones fails the assertion.
\<close>

record pcd_newton_solver =
  ns_prefix :: string
  ns_linear_parameters :: parameters
  ns_nonlinear_parameters :: parameters
  ns_options :: options_db

definition create_solver ::
  "options_db \<Rightarrow> parameters \<Rightarrow> parameters \<Rightarrow> string \<Rightarrow> string \<Rightarrow> string \<Rightarrow> bool \<Rightarrow>
     py_error + pcd_newton_solver" where
  "create_solver PETScOptions linear_defaults nonlinear_defaults random_string pcd_variant ls
       mumps_debug =
     (let prefix = ''s'' @ random_string @ ''_'';
          linear_parameters = linear_defaults([''relative_tolerance''] \<mapsto> PReal 0.000001);
          opts = PETScOptions
            (prefix @ ''ksp_gmres_restart'' \<mapsto> PInt 150,
             prefix @ ''fieldsplit_p_pc_python_type'' \<mapsto> PStr (''fenapack.PCDPC_'' @ pcd_variant));
          solver = (\<lambda>options.
            \<lparr>ns_prefix = prefix, ns_linear_parameters = linear_parameters,
             ns_nonlinear_parameters = nonlinear_defaults([''relative_tolerance''] \<mapsto> PReal 0.00001),
             ns_options = options\<rparr>)
      in if ls = ''iterative''
         then Inr (solver (opts
            (prefix @ ''fieldsplit_u_ksp_type'' \<mapsto> PStr ''richardson'',
             prefix @ ''fieldsplit_u_ksp_max_it'' \<mapsto> PInt 1,
             prefix @ ''fieldsplit_u_pc_type'' \<mapsto> PStr ''hypre'',
             prefix @ ''fieldsplit_u_pc_hypre_type'' \<mapsto> PStr ''boomeramg'',
             prefix @ ''fieldsplit_p_PCD_Ap_ksp_type'' \<mapsto> PStr ''richardson'',
             prefix @ ''fieldsplit_p_PCD_Ap_ksp_max_it'' \<mapsto> PInt 2,
             prefix @ ''fieldsplit_p_PCD_Ap_pc_type'' \<mapsto> PStr ''hypre'',
             prefix @ ''fieldsplit_p_PCD_Ap_pc_hypre_type'' \<mapsto> PStr ''boomeramg'',
             prefix @ ''fieldsplit_p_PCD_Mp_ksp_type'' \<mapsto> PStr ''chebyshev'',
             prefix @ ''fieldsplit_p_PCD_Mp_ksp_max_it'' \<mapsto> PInt 5,
             prefix @ ''fieldsplit_p_PCD_Mp_ksp_chebyshev_eigenvalues'' \<mapsto> PStr ''0.5, 2.0'',
             prefix @ ''fieldsplit_p_PCD_Mp_pc_type'' \<mapsto> PStr ''jacobi'')))
         else if ls = ''direct''
         then Inr (solver (if mumps_debug
            then opts
              (prefix @ ''fieldsplit_u_mat_mumps_icntl_4'' \<mapsto> PInt 2,
               prefix @ ''fieldsplit_p_PCD_Ap_mat_mumps_icntl_4'' \<mapsto> PInt 2,
               prefix @ ''fieldsplit_p_PCD_Mp_mat_mumps_icntl_4'' \<mapsto> PInt 2)
            else opts))
         else Inl AssertionError)"

text \<open>A restart length between 100 and 150.\<close>

definition restart_in_range :: "pvalue option \<Rightarrow> bool" where
  "restart_in_range v = (case v of Some (PInt r) \<Rightarrow> 100 \<le> r \<and> r \<le> 150 | _ \<Rightarrow> False)"


subsection \<open>The Krylov solver and the nonlinear solver\<close>

text \<open>
  Modelled from the spec: the field-split Krylov solver and the nonlinear solver
  (\<^verbatim>\<open>fenapack.FieldSplitSolver\<close>, \<^verbatim>\<open>NonlinearSolver\<close>, \<^verbatim>\<open>PCDKrylovSolver\<close>,
  \<^verbatim>\<open>PCDNewtonSolver\<close>), which the two source files import and configure and which are not
  among them. The definitions follow sections 4.3, 4.4 and 7 of the spec. Norms are
  real numbers.

  The relative residual is the residual norm divided by the initial norm. For a zero
  initial norm the quotient is not a number, and no comparison with it holds.
\<close>

datatype solver_error = LinearNonConvergence | NonlinearNonConvergence

definition relative_residual :: "real \<Rightarrow> real \<Rightarrow> real option" where
  "relative_residual r r0 = (if r0 = 0 then None else Some (r / r0))"

definition below_tolerance :: "real option \<Rightarrow> real \<Rightarrow> bool" where
  "below_tolerance q tol = (case q of None \<Rightarrow> False | Some x \<Rightarrow> x < tol)"

text \<open>
  Modelled from the spec: the Krylov solver (spec 4.3). Its parameters are the relative
  tolerance, the maximum of iterations and the flag ``error on non-convergence''; its
  result is the approximate solution with the converged flag, the final relative residual
  and the iteration count. One iteration of the preconditioned method is the parameter
  \<open>step\<close>, the norm of the residual the parameter \<open>rnorm\<close>. The loop ends when the
  tolerance is reached or the iteration count has reached the maximum.
\<close>

record krylov_parameters =
  k_relative_tolerance :: real
  k_maximum_iterations :: nat
  k_error_on_nonconvergence :: bool

record 'v krylov_result =
  k_solution :: 'v
  k_converged :: bool
  k_relative_residual :: "real option"
  k_iterations :: nat

function krylov_loop ::
  "krylov_parameters \<Rightarrow> ('v \<Rightarrow> 'v) \<Rightarrow> ('v \<Rightarrow> real) \<Rightarrow> real \<Rightarrow> nat \<Rightarrow> 'v \<Rightarrow> 'v krylov_result" where
  "krylov_loop prm step rnorm r0 k x =
     (if below_tolerance (relative_residual (rnorm x) r0) (k_relative_tolerance prm)
      then \<lparr>k_solution = x, k_converged = True,
            k_relative_residual = relative_residual (rnorm x) r0, k_iterations = k\<rparr>
      else if k_maximum_iterations prm \<le> k
      then \<lparr>k_solution = x, k_converged = False,
            k_relative_residual = relative_residual (rnorm x) r0, k_iterations = k\<rparr>
      else krylov_loop prm step rnorm r0 (Suc k) (step x))"
  by pat_completeness auto
termination
  by (relation "measure (\<lambda>(prm, step, rnorm, r0, k, x). k_maximum_iterations prm - k)") auto

declare krylov_loop.simps [simp del]

text \<open>
  Modelled from the spec: the solve of the Krylov solver (spec 4.3, 7). Non-convergence is
  returned in the result; it is raised as an error only when the flag is set.
\<close>

definition krylov_solve ::
  "krylov_parameters \<Rightarrow> ('v \<Rightarrow> 'v) \<Rightarrow> ('v \<Rightarrow> real) \<Rightarrow> 'v \<Rightarrow> solver_error + 'v krylov_result" where
  "krylov_solve prm step rnorm x0 =
     (let res = krylov_loop prm step rnorm (rnorm x0) 0 x0
      in if \<not> k_converged res \<and> k_error_on_nonconvergence prm
         then Inl LinearNonConvergence else Inr res)"

text \<open>
  Modelled from the spec: the nonlinear solver (spec 4.4), a state machine. A problem
  gives the norm of the residual of an iterate, the Krylov iteration and the residual norm
  of the system linearized at an iterate, the initial guess of a correction and the
  (possibly relaxed) update of an iterate by a correction.
\<close>

datatype nl_state =
  Initializing | IteratingNewtonOrPicard | Converged | Diverged | MaxIterationsReached

record nonlinear_parameters =
  relative_tolerance :: real
  maximum_iterations :: nat
  error_on_nonconvergence :: bool

record ('w, 'v) discrete_problem =
  residual_norm :: "'w \<Rightarrow> real"
  krylov_step :: "'w \<Rightarrow> 'v \<Rightarrow> 'v"
  krylov_residual_norm :: "'w \<Rightarrow> 'v \<Rightarrow> real"
  zero_correction :: 'v
  apply_update :: "'w \<Rightarrow> 'v \<Rightarrow> 'w"

record 'w solver_state =
  state :: nl_state
  iterate :: 'w
  iteration_count :: nat
  initial_norm :: real
  krylov_count :: nat

definition linear_solve ::
  "krylov_parameters \<Rightarrow> ('w, 'v) discrete_problem \<Rightarrow> 'w \<Rightarrow> solver_error + 'v krylov_result" where
  "linear_solve kprm P w =
     krylov_solve kprm (krylov_step P w) (krylov_residual_norm P w) (zero_correction P)"

definition terminal :: "nl_state \<Rightarrow> bool" where
  "terminal q = (q = Converged \<or> q = Diverged \<or> q = MaxIterationsReached)"

text \<open>
  Modelled from the spec: the transitions (spec 4.4). \<open>Initializing\<close> evaluates the
  first residual; an iteration tests the relative residual against the tolerance
  (\<open>Converged\<close>), then the iteration count against the maximum
  (\<open>MaxIterationsReached\<close>), and otherwise solves for the correction and updates the
  iterate; a linear solve that raises leads to \<open>Diverged\<close>.
\<close>

definition transition ::
  "nonlinear_parameters \<Rightarrow> krylov_parameters \<Rightarrow> ('w, 'v) discrete_problem \<Rightarrow>
     'w solver_state \<Rightarrow> 'w solver_state" where
  "transition prm kprm P s =
     (case state s of
        Initializing \<Rightarrow>
          s\<lparr>state := IteratingNewtonOrPicard, initial_norm := residual_norm P (iterate s)\<rparr>
      | IteratingNewtonOrPicard \<Rightarrow>
          if below_tolerance (relative_residual (residual_norm P (iterate s)) (initial_norm s))
               (relative_tolerance prm)
          then s\<lparr>state := Converged\<rparr>
          else if maximum_iterations prm \<le> iteration_count s
          then s\<lparr>state := MaxIterationsReached\<rparr>
          else (case linear_solve kprm P (iterate s) of
                  Inl e \<Rightarrow> s\<lparr>state := Diverged\<rparr>
                | Inr r \<Rightarrow>
                    s\<lparr>iterate := apply_update P (iterate s) (k_solution r),
                      iteration_count := Suc (iteration_count s),
                      krylov_count := krylov_count s + k_iterations r\<rparr>)
      | _ \<Rightarrow> s)"

function run ::
  "nonlinear_parameters \<Rightarrow> krylov_parameters \<Rightarrow> ('w, 'v) discrete_problem \<Rightarrow>
     'w solver_state \<Rightarrow> 'w solver_state" where
  "run prm kprm P s = (if terminal (state s) then s else run prm kprm P (transition prm kprm P s))"
  by pat_completeness auto
termination
  apply (relation "measure (\<lambda>(prm, kprm, P, s).
      case state s of
        Initializing \<Rightarrow> maximum_iterations prm - iteration_count s + 2
      | IteratingNewtonOrPicard \<Rightarrow> maximum_iterations prm - iteration_count s + 1
      | _ \<Rightarrow> 0)")
   apply simp
  apply (auto simp add: transition_def terminal_def split: nl_state.splits sum.splits)
  done

declare run.simps [simp del]

text \<open>
  Modelled from the spec: the result of a solve (spec 4.4, 7), the pair (iteration count,
  converged) with the terminal state, the solution vector and the total of the Krylov
  iterations. A solve that diverged raises, and one that reached the maximum raises when
  the flag of the nonlinear solver is set. A solve starts in the state \<open>Initializing\<close>.
\<close>

record 'w nonlinear_result =
  final_state :: nl_state
  iterations :: nat
  converged :: bool
  solution :: 'w
  krylov_iterations :: nat

definition start :: "'w \<Rightarrow> 'w solver_state" where
  "start w0 = \<lparr>state = Initializing, iterate = w0, iteration_count = 0, initial_norm = 0,
               krylov_count = 0\<rparr>"

definition nonlinear_solve ::
  "nonlinear_parameters \<Rightarrow> krylov_parameters \<Rightarrow> ('w, 'v) discrete_problem \<Rightarrow> 'w \<Rightarrow>
     solver_error + 'w nonlinear_result" where
  "nonlinear_solve prm kprm P w0 =
     (let s = run prm kprm P (start w0)
      in if state s = Diverged then Inl LinearNonConvergence
         else if state s = MaxIterationsReached \<and> error_on_nonconvergence prm
         then Inl NonlinearNonConvergence
         else Inr \<lparr>final_state = state s, iterations = iteration_count s,
                   converged = (state s = Converged), solution = iterate s,
                   krylov_iterations = krylov_count s\<rparr>)"


text \<open>
  The correction that a linear solve returns when it does not raise, the iterate after one
  step, and the Krylov iterations of that step.
\<close>

definition best_effort_correction ::
  "krylov_parameters \<Rightarrow> ('w, 'v) discrete_problem \<Rightarrow> 'w \<Rightarrow> 'v krylov_result" where
  "best_effort_correction kprm P w =
     krylov_loop kprm (krylov_step P w) (krylov_residual_norm P w)
       (krylov_residual_norm P w (zero_correction P)) 0 (zero_correction P)"

definition next_iterate :: "krylov_parameters \<Rightarrow> ('w, 'v) discrete_problem \<Rightarrow> 'w \<Rightarrow> 'w" where
  "next_iterate kprm P w = apply_update P w (k_solution (best_effort_correction kprm P w))"

definition inner_iterations :: "krylov_parameters \<Rightarrow> ('w, 'v) discrete_problem \<Rightarrow> 'w \<Rightarrow> nat" where
  "inner_iterations kprm P w = k_iterations (best_effort_correction kprm P w)"

text \<open>
  An iteration exceeds the budget of \<open>n\<close> iterations when none of the iterates
  \<open>0, ..., n\<close> reaches the tolerance.
\<close>

definition stalled :: "('a \<Rightarrow> 'a) \<Rightarrow> ('a \<Rightarrow> real) \<Rightarrow> real \<Rightarrow> nat \<Rightarrow> 'a \<Rightarrow> bool" where
  "stalled step rnorm tol n x0 =
     list_all
       (\<lambda>j. \<not> below_tolerance (relative_residual (rnorm ((step ^^ j) x0)) (rnorm x0)) tol)
       [0..<Suc n]"

text \<open>No linear solve of a problem raises: each returns its correction.\<close>

definition linear_solves_return ::
  "krylov_parameters \<Rightarrow> ('w, 'v) discrete_problem \<Rightarrow> bool" where
  "linear_solves_return kprm P = (\<forall>w. \<exists>r. linear_solve kprm P w = Inr r)"

text \<open>The parameters of the two solvers, read from a table of parameters.\<close>

definition krylov_parameters_of :: "parameters \<Rightarrow> krylov_parameters option" where
  "krylov_parameters_of p =
     (case (p [''relative_tolerance''], p [''maximum_iterations''],
            p [''error_on_nonconvergence'']) of
        (Some (PReal t), Some (PInt n), Some (PBool e)) \<Rightarrow>
          Some \<lparr>k_relative_tolerance = t, k_maximum_iterations = nat n,
                k_error_on_nonconvergence = e\<rparr>
      | _ \<Rightarrow> None)"

definition nonlinear_parameters_of :: "parameters \<Rightarrow> nonlinear_parameters option" where
  "nonlinear_parameters_of p =
     (case (p [''relative_tolerance''], p [''maximum_iterations''],
            p [''error_on_nonconvergence'']) of
        (Some (PReal t), Some (PInt n), Some (PBool e)) \<Rightarrow>
          Some \<lparr>relative_tolerance = t, maximum_iterations = nat n,
                error_on_nonconvergence = e\<rparr>
      | _ \<Rightarrow> None)"

text \<open>The relation between a state and the state the machine ends in (used in proofs).\<close>

definition run_spec ::
  "nonlinear_parameters \<Rightarrow> krylov_parameters \<Rightarrow> ('w, 'v) discrete_problem \<Rightarrow>
     'w solver_state \<Rightarrow> 'w solver_state \<Rightarrow> nat \<Rightarrow> bool" where
  "run_spec prm kprm P s t n \<longleftrightarrow>
     iterate t = (next_iterate kprm P ^^ n) (iterate s) \<and>
     iteration_count t = iteration_count s + n \<and>
     iteration_count t \<le> maximum_iterations prm \<and>
     initial_norm t = initial_norm s \<and>
     krylov_count t =
       krylov_count s + (\<Sum>j<n. inner_iterations kprm P ((next_iterate kprm P ^^ j) (iterate s))) \<and>
     (\<forall>j<n. \<not> below_tolerance
         (relative_residual (residual_norm P ((next_iterate kprm P ^^ j) (iterate s)))
            (initial_norm s)) (relative_tolerance prm)) \<and>
     (if below_tolerance (relative_residual (residual_norm P (iterate t)) (initial_norm s))
           (relative_tolerance prm)
      then state t = Converged
      else state t = MaxIterationsReached \<and> iteration_count t = maximum_iterations prm)"


text \<open>
  Two small problems on the real line, inputs of the solvers in examples: one whose
  residual never decreases, and one whose residual is halved by every step, the linear
  solve being exact after one Krylov iteration.
\<close>

definition stalled_problem :: "(real, real) discrete_problem" where
  "stalled_problem =
     \<lparr>residual_norm = (\<lambda>w. 1), krylov_step = (\<lambda>w v. v), krylov_residual_norm = (\<lambda>w v. 1),
      zero_correction = 0, apply_update = (\<lambda>w v. w + v)\<rparr>"



subsection \<open>The demo as a script (step3D\_lu.py)\<close>

text \<open>
  The demo is a script: its statements run from top to bottom until one of them ends the
  run. The calls into the libraries are opaque; each may return, raise, or not return at
  all (\<^verbatim>\<open>interactive()\<close> waits for the user). What they do is given by an environment.
\<close>

datatype call_outcome = Returns | Raises | NeverReturns

text \<open>
  How a run ends: \<^verbatim>\<open>SystemExit\<close> at a line with a status, an exception that nothing
  catches, a call that does not return, or the end of the file.
\<close>

datatype outcome = SystemExit nat int | Uncaught nat | Blocked nat | EndOfFile

text \<open>
  The statements of the script: a library call, the parsing of the arguments (line 56),
  the loading of the mesh (line 59), the refinement loop (lines 61--63), the stretching
  (lines 65--77) and \<^verbatim>\<open>exit()\<close> (line 80).
\<close>

datatype stmt =
    Library string
  | ParseArgs
  | LoadMesh
  | Refinement
  | Stretching
  | Exit

text \<open>
  The environment: the behaviour of \<^verbatim>\<open>parse_args\<close> on the command line, the outcome of
  the library call at each line, the coordinates in the mesh file (\<^const>\<open>None\<close> when it
  cannot be read) and \<^verbatim>\<open>refine\<close>.
\<close>

record environment =
  env_parse_args :: "string list \<Rightarrow> int + args"
  env_call :: "nat \<Rightarrow> call_outcome"
  env_mesh :: "point list option"
  env_refine :: "point list \<Rightarrow> point list"

text \<open>
  The state of a run: the namespace \<^verbatim>\<open>args\<close> once it is bound, the coordinates of the
  mesh, the coordinates after the stretching block, and the lines of the statements that
  have been started.
\<close>

record script_state =
  st_args :: "args option"
  st_mesh :: "point list"
  st_coordinates :: "fpoint list option"
  st_executed :: "nat list"

text \<open>The script, each statement with the line it starts at.\<close>

definition demo_script :: "(nat \<times> stmt) list" where
  "demo_script =
     [(23, Library ''from dolfin import *; from fenapack import ...''),
      (27, Library ''parameters[form_compiler]''),
      (31, Library ''mpi_comm_world, set_log_level''),
      (40, Library ''argparse.ArgumentParser, add_argument''),
      (56, ParseArgs),
      (59, LoadMesh),
      (61, Refinement),
      (65, Stretching),
      (78, Library ''plot(mesh)''),
      (79, Library ''interactive()''),
      (80, Exit),
      (82, Library ''VectorFunctionSpace, FunctionSpace''),
      (87, Library ''class Gamma0 ... Gamma3''),
      (106, Library ''FacetFunction, mark''),
      (113, Library ''DirichletBC''),
      (129, Library ''info''),
      (134, Library ''TrialFunctions, TestFunctions, Function, F''),
      (150, Library ''J''),
      (160, Library ''FacetNormal, Measure''),
      (164, Library ''mp, ap, kp, fp''),
      (170, Library ''NonlinearDiscreteProblem''),
      (179, Library ''FieldSplitSolver''),
      (194, Library ''get_subopts''),
      (216, Library ''NonlinearSolver''),
      (226, Library ''Timer''),
      (228, Library ''solver.solve''),
      (229, Library ''timer.stop''),
      (232, Library ''w.split, rename''),
      (237, Library ''File << u, p''),
      (243, Library ''list_timings''),
      (247, Library ''plot(u), plot(p), interactive()'')]"

text \<open>
  One statement. \<^verbatim>\<open>range(numrefs)\<close> is empty for \<^verbatim>\<open>numrefs <= 0\<close>. The stretching block
  imports numpy (line 66) when it is entered. \<^verbatim>\<open>exit()\<close> raises \<^verbatim>\<open>SystemExit\<close> with
  status 0.
\<close>

definition library_call :: "environment \<Rightarrow> nat \<Rightarrow> script_state \<Rightarrow> outcome + script_state" where
  "library_call env line st =
     (case env_call env line of
        Returns \<Rightarrow> Inr st
      | Raises \<Rightarrow> Inl (Uncaught line)
      | NeverReturns \<Rightarrow> Inl (Blocked line))"

definition exec_stmt ::
  "environment \<Rightarrow> string list \<Rightarrow> nat \<Rightarrow> stmt \<Rightarrow> script_state \<Rightarrow> outcome + script_state" where
  "exec_stmt env argv line s st =
     (case s of
        Library name \<Rightarrow> library_call env line st
      | ParseArgs \<Rightarrow>
          (case env_parse_args env argv of
             Inl status \<Rightarrow> Inl (SystemExit line status)
           | Inr a \<Rightarrow> Inr (st\<lparr>st_args := Some a\<rparr>))
      | LoadMesh \<Rightarrow>
          (case env_mesh env of
             None \<Rightarrow> Inl (Uncaught line)
           | Some coords \<Rightarrow> Inr (st\<lparr>st_mesh := coords\<rparr>))
      | Refinement \<Rightarrow>
          (case st_args st of
             None \<Rightarrow> Inl (Uncaught line)
           | Some a \<Rightarrow> Inr (st\<lparr>st_mesh := (env_refine env ^^ nat (level a - 1)) (st_mesh st)\<rparr>))
      | Stretching \<Rightarrow>
          (case st_args st of
             None \<Rightarrow> Inl (Uncaught line)
           | Some a \<Rightarrow>
               if stretch a \<noteq> 1.0
               then (case library_call env (line + 1) st of
                       Inl out \<Rightarrow> Inl out
                     | Inr st' \<Rightarrow>
                         Inr (st'\<lparr>st_coordinates := Some (stretching (stretch a) (st_mesh st'))\<rparr>))
               else Inr (st\<lparr>st_coordinates := Some (stretching (stretch a) (st_mesh st))\<rparr>))
      | Exit \<Rightarrow> Inl (SystemExit line 0))"

text \<open>A run: the statements in order, up to the first that does not return.\<close>

fun run_script ::
  "environment \<Rightarrow> string list \<Rightarrow> (nat \<times> stmt) list \<Rightarrow> script_state \<Rightarrow> script_state \<times> outcome" where
  "run_script env argv [] st = (st, EndOfFile)"
| "run_script env argv ((line, s) # rest) st =
     (case exec_stmt env argv line s (st\<lparr>st_executed := st_executed st @ [line]\<rparr>) of
        Inl out \<Rightarrow> (st\<lparr>st_executed := st_executed st @ [line]\<rparr>, out)
      | Inr st' \<Rightarrow> run_script env argv rest st')"

definition initial_state :: script_state where
  "initial_state = \<lparr>st_args = None, st_mesh = [], st_coordinates = None, st_executed = []\<rparr>"

definition run_demo :: "environment \<Rightarrow> string list \<Rightarrow> script_state \<times> outcome" where
  "run_demo env argv = run_script env argv demo_script initial_state"


text \<open>The library calls at the given lines all return.\<close>

definition calls_return :: "environment \<Rightarrow> nat list \<Rightarrow> bool" where
  "calls_return env ls = list_all (\<lambda>l. env_call env l = Returns) ls"

text \<open>
  A model of \<^verbatim>\<open>parser.parse_args(sys.argv[1:])\<close> for the parser of lines 40--55: the
  options \<^verbatim>\<open>-l\<close> (int), \<^verbatim>\<open>-s\<close>, \<^verbatim>\<open>--nu\<close> (float), \<^verbatim>\<open>--nls\<close>, \<^verbatim>\<open>--PCD\<close>
  (one of the choices) and \<^verbatim>\<open>--save\<close>, and \<^verbatim>\<open>-h\<close>, \<^verbatim>\<open>--help\<close>, which argparse
  adds. The result is the namespace, or the status with which argparse exits: 0 after
  printing the help, 2 after a usage error (a missing or ill-typed value, a value that is
  not among the choices, an unrecognised argument).

  The model covers the command lines in which every option is spelled exactly as declared
  and followed by its value as the next argument, numbers being plain decimal literals.
  The other spellings that argparse accepts (a unique prefix of a long option,
  \<^verbatim>\<open>--nu=0.1\<close>, \<^verbatim>\<open>-l3\<close>, a lone \<^verbatim>\<open>--\<close>, exponents, \<^verbatim>\<open>inf\<close>) are outside
  the model and count as usage errors here. The script itself is defined for any behaviour
  of the parser, which is a field of the environment.
\<close>

definition is_digit :: "char \<Rightarrow> bool" where
  "is_digit c = (c \<in> set ''0123456789'')"

definition digits_value :: "string \<Rightarrow> nat" where
  "digits_value s = foldl (\<lambda>n c. 10 * n + (of_char c - 48)) 0 s"

definition nat_of_digits :: "string \<Rightarrow> nat option" where
  "nat_of_digits s = (if s \<noteq> [] \<and> list_all is_digit s then Some (digits_value s) else None)"

definition unsigned_float :: "string \<Rightarrow> real option" where
  "unsigned_float s =
     (let ip = takeWhile is_digit s; rest = dropWhile is_digit s
      in case rest of
           [] \<Rightarrow> map_option real (nat_of_digits ip)
         | c # fp \<Rightarrow>
             if c = CHR ''.'' \<and> list_all is_digit fp \<and> (ip \<noteq> [] \<or> fp \<noteq> [])
             then Some (real (digits_value ip) + real (digits_value fp) / 10 ^ length fp)
             else None)"

definition int_of_string :: "string \<Rightarrow> int option" where
  "int_of_string s =
     (case s of
        [] \<Rightarrow> None
      | c # cs \<Rightarrow>
          if c = CHR ''-'' then map_option (\<lambda>n. - int n) (nat_of_digits cs)
          else if c = CHR ''+'' then map_option int (nat_of_digits cs)
          else map_option int (nat_of_digits s))"

definition float_of_string :: "string \<Rightarrow> real option" where
  "float_of_string s =
     (case s of
        [] \<Rightarrow> None
      | c # cs \<Rightarrow>
          if c = CHR ''-'' then map_option uminus (unsigned_float cs)
          else if c = CHR ''+'' then unsigned_float cs
          else unsigned_float s)"

text \<open>
  An argument that starts with \<^verbatim>\<open>-\<close> is an option string and cannot be the value of
  an option, unless it is a lone \<^verbatim>\<open>-\<close>, looks like a negative number or has a space.
\<close>

definition negative_number :: "string \<Rightarrow> bool" where
  "negative_number s =
     (case s of
        [] \<Rightarrow> False
      | c # cs \<Rightarrow>
          c = CHR ''-'' \<and>
          (let ip = takeWhile is_digit cs; rest = dropWhile is_digit cs
           in case rest of
                [] \<Rightarrow> ip \<noteq> []
              | d # fp \<Rightarrow> d = CHR ''.'' \<and> fp \<noteq> [] \<and> list_all is_digit fp))"

definition looks_like_option :: "string \<Rightarrow> bool" where
  "looks_like_option s =
     (case s of
        [] \<Rightarrow> False
      | c # cs \<Rightarrow> c = CHR ''-'' \<and> cs \<noteq> [] \<and> \<not> negative_number s \<and> CHR '' '' \<notin> set s)"

text \<open>The options that take a value, and the conversion and check of the value.\<close>

definition takes_value :: "string \<Rightarrow> bool" where
  "takes_value t = (t \<in> set [''-l'', ''-s'', ''--nu'', ''--nls'', ''--PCD''])"

definition store :: "string \<Rightarrow> string \<Rightarrow> args \<Rightarrow> args option" where
  "store t v a =
     (if t = ''-l'' then map_option (\<lambda>n. a\<lparr>level := n\<rparr>) (int_of_string v)
      else if t = ''-s'' then map_option (\<lambda>x. a\<lparr>stretch := x\<rparr>) (float_of_string v)
      else if t = ''--nu'' then map_option (\<lambda>x. a\<lparr>viscosity := x\<rparr>) (float_of_string v)
      else if t = ''--nls'' then (if v \<in> set nls_choices then Some (a\<lparr>nls := v\<rparr>) else None)
      else if t = ''--PCD''
      then (if v \<in> set pcd_choices then Some (a\<lparr>pcd_strategy := v\<rparr>) else None)
      else None)"

text \<open>
  The arguments are consumed from left to right; the help option exits at once, and the
  arguments that are not recognised are reported when all others have been consumed.
\<close>

fun parse_loop :: "args \<Rightarrow> string list \<Rightarrow> string list \<Rightarrow> int + args" where
  "parse_loop a [] extras = (if extras = [] then Inr a else Inl 2)"
| "parse_loop a [t] extras =
     (if t = ''-h'' \<or> t = ''--help'' then Inl 0
      else if t = ''--save'' then parse_loop (a\<lparr>save_results := True\<rparr>) [] extras
      else if takes_value t then Inl 2
      else parse_loop a [] (extras @ [t]))"
| "parse_loop a (t # v # rest) extras =
     (if t = ''-h'' \<or> t = ''--help'' then Inl 0
      else if t = ''--save'' then parse_loop (a\<lparr>save_results := True\<rparr>) (v # rest) extras
      else if takes_value t
      then (if looks_like_option v then Inl 2
            else case store t v a of
                   None \<Rightarrow> Inl 2
                 | Some a' \<Rightarrow> parse_loop a' rest extras)
      else parse_loop a (v # rest) (extras @ [t]))"

definition parse_args :: "string list \<Rightarrow> int + args" where
  "parse_args argv = parse_loop default_args argv []"

text \<open>
  An environment in which every library call returns: the parser is the model above, the
  mesh file holds three points, and refinement leaves the points alone.
\<close>

definition all_return :: environment where
  "all_return =
     \<lparr>env_parse_args = parse_args, env_call = (\<lambda>l. Returns),
      env_mesh = Some [(-1, -1, 0), (0, 0, 0), (5, 1, 1)], env_refine = (\<lambda>m. m)\<rparr>"


section \<open>Theorems\<close>

subsection \<open>Mesh stretching\<close>



















subsection \<open>The PCD variants: artificial boundary condition and surface term\<close>

lemma demo_markers:
  "pcd_bc_markers (demo_problem a) = [PCD_BND_MARKER (pcd_strategy a)]"
  by (simp add: demo_problem_def pcd_bc_markers_def bcs_pcd_def bc_art_def)

lemma demo_surface:
  "pcd_surface_measures (demo_problem a) = (if pcd_strategy a = ''ESW'' then [Ds 1] else [])"
  by (simp add: demo_problem_def pcd_surface_measures_def surface_measures_def
      demo_fp_final_def demo_fp_def demo_ap_def demo_kp_def demo_robin_def)

lemma bench_problem:
  assumes "nu \<noteq> 0" "v = ''BRM1'' \<or> v = ''BRM2''"
  shows "\<exists>P. create_pcd_problem F_form bl J Jpc nu v = Inr P \<and>
    pcd_bc_markers P = [if v = ''BRM2'' then 2 else 1] \<and>
    pcd_surface_measures P = (if v = ''BRM2'' then [Ds 1] else []) \<and>
    prob_mp P = bench_mp nu \<and> prob_ap P = bench_ap \<and>
    prob_kp P = Some (if v = ''BRM2'' then FSub (bench_kp nu) (bench_robin nu) else bench_kp nu) \<and>
    prob_fp P = None \<and> prob_nu P = None"
  using assms
  by (auto simp add: create_pcd_problem_def bench_bc_pcd_def pcd_bc_markers_def
      pcd_surface_measures_def surface_measures_def bench_kp_def bench_robin_def)

text \<open>
  The inflow profile of both files is imposed on marker 1, and the planes \<open>x0 = -1\<close> and
  \<open>x0 = 5\<close> (in the demo away from the side walls) are marked 1 and 2.
\<close>

lemma inflow_profile_on_inlet:
  "bc_marker bc1 = inlet_marker" "bc_marker bench_bc1 = inlet_marker"
  by (simp_all add: bc1_def bench_bc1_def inlet_marker_def)

lemma planes_marked:
  assumes "\<not> near z 0" "\<not> near z 1"
  shows "boundary_markers (-1, y, z) True = inlet_marker"
    "boundary_markers (5, y, z) True = outlet_marker"
  using assms
  by (simp_all add: boundary_markers_def Gamma3_inside_def Gamma2_inside_def Gamma1_inside_def
      near_def inlet_marker_def outlet_marker_def)

lemma bench_planes_marked:
  "bench_boundary_markers (-1, y) True = inlet_marker"
  "bench_boundary_markers (5, y) True = outlet_marker"
  by (simp_all add: bench_boundary_markers_def near_def inlet_marker_def outlet_marker_def)

text \<open>
  Claim C1, as the code has it. The variant with the artificial Dirichlet condition on the
  inflow boundary is \<open>BMR\<close> in the demo and \<open>BRM1\<close> in the benchmark, and it has no
  surface term; the variant \<open>ESW\<close> of the demo and \<open>BRM2\<close> of the benchmark puts the
  Dirichlet condition on the outflow boundary and takes the surface integral of the Robin
  correction over the inflow boundary, \<open>ds(1)\<close>.
\<close>

theorem pcd_variant_boundaries:
  "(pcd_strategy a = ''BMR'' \<longrightarrow>
      pcd_bc_markers (demo_problem a) = [inlet_marker] \<and>
      pcd_surface_measures (demo_problem a) = []) \<and>
   (pcd_strategy a = ''ESW'' \<longrightarrow>
      pcd_bc_markers (demo_problem a) = [outlet_marker] \<and>
      pcd_surface_measures (demo_problem a) = [Ds inlet_marker]) \<and>
   (nu \<noteq> 0 \<longrightarrow>
      (\<exists>P. create_pcd_problem F_form bl J Jpc nu ''BRM1'' = Inr P \<and>
           pcd_bc_markers P = [inlet_marker] \<and> pcd_surface_measures P = []) \<and>
      (\<exists>P. create_pcd_problem F_form bl J Jpc nu ''BRM2'' = Inr P \<and>
           pcd_bc_markers P = [outlet_marker] \<and> pcd_surface_measures P = [Ds inlet_marker]))"
proof -
  have "pcd_strategy a = ''BMR'' \<longrightarrow>
      pcd_bc_markers (demo_problem a) = [inlet_marker] \<and>
      pcd_surface_measures (demo_problem a) = []"
    by (simp add: demo_markers demo_surface PCD_BND_MARKER_def inlet_marker_def)
  moreover have "pcd_strategy a = ''ESW'' \<longrightarrow>
      pcd_bc_markers (demo_problem a) = [outlet_marker] \<and>
      pcd_surface_measures (demo_problem a) = [Ds inlet_marker]"
    by (simp add: demo_markers demo_surface PCD_BND_MARKER_def inlet_marker_def
        outlet_marker_def)
  moreover have "nu \<noteq> 0 \<longrightarrow>
      (\<exists>P. create_pcd_problem F_form bl J Jpc nu ''BRM1'' = Inr P \<and>
           pcd_bc_markers P = [inlet_marker] \<and> pcd_surface_measures P = [])"
    using bench_problem[of nu "''BRM1''" F_form bl J Jpc] by (auto simp add: inlet_marker_def)
  moreover have "nu \<noteq> 0 \<longrightarrow>
      (\<exists>P. create_pcd_problem F_form bl J Jpc nu ''BRM2'' = Inr P \<and>
           pcd_bc_markers P = [outlet_marker] \<and> pcd_surface_measures P = [Ds inlet_marker])"
    using bench_problem[of nu "''BRM2''" F_form bl J Jpc]
    by (auto simp add: inlet_marker_def outlet_marker_def)
  ultimately show ?thesis by blast
qed

theorem pcd_variant_boundaries_witness:
  "pcd_strategy default_args = ''ESW'' \<and>
   pcd_bc_markers (demo_problem default_args) = [outlet_marker] \<and>
   pcd_surface_measures (demo_problem default_args) = [Ds inlet_marker] \<and>
   pcd_strategy (default_args\<lparr>pcd_strategy := ''BMR''\<rparr>) = ''BMR'' \<and>
   pcd_bc_markers (demo_problem (default_args\<lparr>pcd_strategy := ''BMR''\<rparr>)) = [inlet_marker] \<and>
   pcd_surface_measures (demo_problem (default_args\<lparr>pcd_strategy := ''BMR''\<rparr>)) = [] \<and>
   (0.02::real) \<noteq> 0 \<and>
   (\<exists>P. create_pcd_problem (bench_F 0.02 1.0) [bench_bc0, bench_bc1]
           (bench_J_picard 0.02 1.0) None 0.02 ''BRM1'' = Inr P \<and>
        pcd_bc_markers P = [inlet_marker] \<and> pcd_surface_measures P = []) \<and>
   (\<exists>P. create_pcd_problem (bench_F 0.02 1.0) [bench_bc0, bench_bc1]
           (bench_J_picard 0.02 1.0) None 0.02 ''BRM2'' = Inr P \<and>
        pcd_bc_markers P = [outlet_marker] \<and> pcd_surface_measures P = [Ds inlet_marker])"
proof -
  have e: "pcd_strategy default_args = ''ESW''" by (simp add: default_args_def)
  have b: "pcd_strategy (default_args\<lparr>pcd_strategy := ''BMR''\<rparr>) = ''BMR''" by simp
  have n: "(0.02::real) \<noteq> 0" by simp
  from pcd_variant_boundaries[of default_args "0.02" "bench_F 0.02 1.0" "[bench_bc0, bench_bc1]"
      "bench_J_picard 0.02 1.0" None]
    pcd_variant_boundaries[of "default_args\<lparr>pcd_strategy := ''BMR''\<rparr>" "0.02" "bench_F 0.02 1.0"
      "[bench_bc0, bench_bc1]" "bench_J_picard 0.02 1.0" None] e b n
  show ?thesis by blast
qed

text \<open>
  The claim as it is written pairs \<open>ESW\<close> with the Dirichlet condition on the inflow
  boundary. With the default strategy \<open>ESW\<close> the demo puts the artificial condition on
  marker 2, the outflow boundary, not on the inflow boundary.
\<close>

theorem esw_dirichlet_not_on_inflow:
  "pcd_strategy default_args = ''ESW'' \<and>
   pcd_bc_markers (demo_problem default_args) = [outlet_marker] \<and>
   pcd_bc_markers (demo_problem default_args) \<noteq> [inlet_marker]"
  by (simp add: default_args_def demo_problem_def pcd_bc_markers_def bcs_pcd_def bc_art_def
      PCD_BND_MARKER_def inlet_marker_def outlet_marker_def)


subsection \<open>The convection-diffusion operator\<close>







subsection \<open>The Jacobian\<close>

lemma frozen_demo:
  "jacobian_terms (demo_J ''Picard'' visc) =
     frozen_convection (jacobian_terms (demo_J ''Newton'' visc))"
  by (simp add: demo_J_def demo_F_def times_def frozen_convection_def)

lemma frozen_bench:
  "jacobian_terms (bench_J_picard nu alpha) =
     frozen_convection (jacobian_terms (Derivative (bench_F nu alpha) Coef_w))"
  by (simp add: bench_J_picard_def bench_F_def times_def frozen_convection_def bench_alpha_def
      bench_one_minus_alpha_def)

lemma newton_terms_demo:
  "jacobian_terms (demo_J ''Newton'' visc) =
     [(1, Mul (Constant visc) (Inner (Grad Trial_u) (Grad Test_v))),
      (1, Inner (Dot (Grad Trial_u) Coef_u) Test_v),
      (1, Inner (Dot (Grad Coef_u) Trial_u) Test_v),
      (- 1, Mul Trial_p (Div Test_v)),
      (- 1, Mul Test_q (Div Trial_u))]"
  by (simp add: demo_J_def demo_F_def times_def)

lemma convecting_demo:
  "convecting_velocities (demo_J ''Picard'' visc) = [Coef_u]"
  "convecting_velocities (demo_J ''Newton'' visc) = [Coef_u, Trial_u]"
  by (simp_all add: demo_J_def demo_F_def times_def convecting_velocities_def)

lemma convecting_bench_picard:
  "convecting_velocities (bench_J_picard nu alpha) =
     (if alpha \<noteq> 1 then [Coef_u, Coef_u, Coef_u] else [Coef_u, Coef_u])"
  by (simp add: bench_J_picard_def times_def convecting_velocities_def
      bench_alpha_def bench_one_minus_alpha_def)

lemma convecting_bench_newton:
  "convecting_velocities (Derivative (bench_F nu alpha) Coef_w) =
     (if alpha \<noteq> 1 then [Coef_u, Trial_u, Coef_u, Trial_u, Coef_u, Trial_u]
      else [Coef_u, Trial_u, Coef_u, Trial_u])"
  by (simp add: bench_F_def times_def convecting_velocities_def
      bench_alpha_def bench_one_minus_alpha_def)

lemma convecting_bench:
  "set (convecting_velocities (bench_J_picard nu alpha)) = {Coef_u}"
  "set (convecting_velocities (Derivative (bench_F nu alpha) Coef_w)) = {Coef_u, Trial_u}"
  by (auto simp add: convecting_bench_picard convecting_bench_newton)

text \<open>
  Claim C4. The Jacobian is chosen by the configured type of the nonlinear solver alone.
  For Newton it is \<open>derivative(F, w)\<close>, the exact derivative of the residual with respect
  to the whole iterate: its terms are those of the Gateaux derivative of \<open>F\<close>, among them
  the term in which the trial function \<open>u\<close> is the convecting velocity. For Picard it is
  the linearization with the convection frozen: its terms are the terms of the exact
  derivative in which the trial function convects nothing, and the only convecting velocity
  is the previous iterate \<open>u_\<close>. The same holds for the forms of the benchmark.
\<close>

theorem jacobian_by_solver_type:
  "prob_J (demo_problem a) = demo_J (nls a) (viscosity a) \<and>
   demo_J ''Newton'' visc = Derivative (demo_F visc) Coef_w \<and>
   jacobian_terms (demo_J ''Newton'' visc) =
     [(1, Mul (Constant visc) (Inner (Grad Trial_u) (Grad Test_v))),
      (1, Inner (Dot (Grad Trial_u) Coef_u) Test_v),
      (1, Inner (Dot (Grad Coef_u) Trial_u) Test_v),
      (- 1, Mul Trial_p (Div Test_v)),
      (- 1, Mul Test_q (Div Trial_u))] \<and>
   jacobian_terms (demo_J ''Picard'' visc) =
     frozen_convection (jacobian_terms (demo_J ''Newton'' visc)) \<and>
   convecting_velocities (demo_J ''Picard'' visc) = [Coef_u] \<and>
   convecting_velocities (demo_J ''Newton'' visc) = [Coef_u, Trial_u] \<and>
   create_forms nu alpha ''newton'' ''direct'' =
     Inr (bench_F nu alpha, [bench_bc0, bench_bc1], Derivative (bench_F nu alpha) Coef_w, None) \<and>
   create_forms nu alpha ''picard'' ''direct'' =
     Inr (bench_F nu alpha, [bench_bc0, bench_bc1], bench_J_picard nu alpha, None) \<and>
   create_forms nu alpha ''newton'' ''iterative'' =
     Inr (bench_F nu alpha, [bench_bc0, bench_bc1], Derivative (bench_F nu alpha) Coef_w,
          Some (bench_J_pc nu (Derivative (bench_F nu alpha) Coef_w))) \<and>
   create_forms nu alpha ''picard'' ''iterative'' =
     Inr (bench_F nu alpha, [bench_bc0, bench_bc1], bench_J_picard nu alpha,
          Some (bench_J_pc nu (bench_J_picard nu alpha))) \<and>
   jacobian_terms (bench_J_picard nu alpha) =
     frozen_convection (jacobian_terms (Derivative (bench_F nu alpha) Coef_w)) \<and>
   set (convecting_velocities (bench_J_picard nu alpha)) = {Coef_u} \<and>
   set (convecting_velocities (Derivative (bench_F nu alpha) Coef_w)) = {Coef_u, Trial_u}"
proof -
  have "prob_J (demo_problem a) = demo_J (nls a) (viscosity a)"
    by (simp add: demo_problem_def)
  moreover have "demo_J ''Newton'' visc = Derivative (demo_F visc) Coef_w"
    by (simp add: demo_J_def)
  moreover have "create_forms nu alpha ''newton'' ''direct'' =
     Inr (bench_F nu alpha, [bench_bc0, bench_bc1], Derivative (bench_F nu alpha) Coef_w, None)"
    "create_forms nu alpha ''picard'' ''direct'' =
     Inr (bench_F nu alpha, [bench_bc0, bench_bc1], bench_J_picard nu alpha, None)"
    "create_forms nu alpha ''newton'' ''iterative'' =
     Inr (bench_F nu alpha, [bench_bc0, bench_bc1], Derivative (bench_F nu alpha) Coef_w,
          Some (bench_J_pc nu (Derivative (bench_F nu alpha) Coef_w)))"
    "create_forms nu alpha ''picard'' ''iterative'' =
     Inr (bench_F nu alpha, [bench_bc0, bench_bc1], bench_J_picard nu alpha,
          Some (bench_J_pc nu (bench_J_picard nu alpha)))"
    by (simp_all add: create_forms_def bench_J_def)
  ultimately show ?thesis
    using newton_terms_demo[of visc] frozen_demo[of visc] convecting_demo[of visc]
      frozen_bench[of nu alpha] convecting_bench[of nu alpha]
    by blast
qed


subsection \<open>The two scalings of the PCD operators\<close>







subsection \<open>The solvers\<close>

lemma krylov_loop_spec:
  "\<exists>n. k_iterations (krylov_loop prm step rnorm r0 k x) = k + n \<and>
       k_solution (krylov_loop prm step rnorm r0 k x) = (step ^^ n) x \<and>
       (\<forall>j<n. \<not> below_tolerance (relative_residual (rnorm ((step ^^ j) x)) r0)
                  (k_relative_tolerance prm)) \<and>
       k_relative_residual (krylov_loop prm step rnorm r0 k x) =
         relative_residual (rnorm ((step ^^ n) x)) r0 \<and>
       k_converged (krylov_loop prm step rnorm r0 k x) =
         below_tolerance (relative_residual (rnorm ((step ^^ n) x)) r0) (k_relative_tolerance prm) \<and>
       (k_converged (krylov_loop prm step rnorm r0 k x) \<or>
          k_maximum_iterations prm \<le> k + n) \<and>
       (k \<le> k_maximum_iterations prm \<longrightarrow> k + n \<le> k_maximum_iterations prm)"
proof (induction prm step rnorm r0 k x rule: krylov_loop.induct)
  case (1 prm step rnorm r0 k x)
  let ?b = "below_tolerance (relative_residual (rnorm x) r0) (k_relative_tolerance prm)"
  show ?case
  proof (cases "?b \<or> k_maximum_iterations prm \<le> k")
    case True
    then have "\<exists>n. n = (0::nat) \<and> k_iterations (krylov_loop prm step rnorm r0 k x) = k + n \<and>
       k_solution (krylov_loop prm step rnorm r0 k x) = (step ^^ n) x \<and>
       (\<forall>j<n. \<not> below_tolerance (relative_residual (rnorm ((step ^^ j) x)) r0)
                  (k_relative_tolerance prm)) \<and>
       k_relative_residual (krylov_loop prm step rnorm r0 k x) =
         relative_residual (rnorm ((step ^^ n) x)) r0 \<and>
       k_converged (krylov_loop prm step rnorm r0 k x) =
         below_tolerance (relative_residual (rnorm ((step ^^ n) x)) r0) (k_relative_tolerance prm) \<and>
       (k_converged (krylov_loop prm step rnorm r0 k x) \<or>
          k_maximum_iterations prm \<le> k + n) \<and>
       (k \<le> k_maximum_iterations prm \<longrightarrow> k + n \<le> k_maximum_iterations prm)"
      by (auto simp add: krylov_loop.simps[of prm step rnorm r0 k x])
    then show ?thesis by blast
  next
    case False
    then have nb: "\<not> ?b" and lt: "\<not> k_maximum_iterations prm \<le> k" by auto
    have unfold: "krylov_loop prm step rnorm r0 k x = krylov_loop prm step rnorm r0 (Suc k) (step x)"
      using nb lt by (simp add: krylov_loop.simps[of prm step rnorm r0 k x])
    from "1.IH"[OF nb lt] obtain n where n:
      "k_iterations (krylov_loop prm step rnorm r0 (Suc k) (step x)) = Suc k + n"
      "k_solution (krylov_loop prm step rnorm r0 (Suc k) (step x)) = (step ^^ n) (step x)"
      "\<forall>j<n. \<not> below_tolerance (relative_residual (rnorm ((step ^^ j) (step x))) r0)
                  (k_relative_tolerance prm)"
      "k_relative_residual (krylov_loop prm step rnorm r0 (Suc k) (step x)) =
         relative_residual (rnorm ((step ^^ n) (step x))) r0"
      "k_converged (krylov_loop prm step rnorm r0 (Suc k) (step x)) =
         below_tolerance (relative_residual (rnorm ((step ^^ n) (step x))) r0)
           (k_relative_tolerance prm)"
      "k_converged (krylov_loop prm step rnorm r0 (Suc k) (step x)) \<or>
          k_maximum_iterations prm \<le> Suc k + n"
      "Suc k \<le> k_maximum_iterations prm \<longrightarrow> Suc k + n \<le> k_maximum_iterations prm"
      by blast
    have all: "\<forall>j<Suc n. \<not> below_tolerance (relative_residual (rnorm ((step ^^ j) x)) r0)
                  (k_relative_tolerance prm)"
    proof (intro allI impI)
      fix j assume "j < Suc n"
      then show "\<not> below_tolerance (relative_residual (rnorm ((step ^^ j) x)) r0)
                  (k_relative_tolerance prm)"
        using nb n(3) by (cases j) (auto simp add: funpow_swap1)
    qed
    show ?thesis
      apply (rule exI[of _ "Suc n"])
      unfolding unfold
      using n all lt by (simp add: funpow_swap1)
  qed
qed


lemma stalledD:
  "stalled step rnorm tol n x0 \<Longrightarrow> j \<le> n \<Longrightarrow>
   \<not> below_tolerance (relative_residual (rnorm ((step ^^ j) x0)) (rnorm x0)) tol"
  unfolding stalled_def list_all_iff set_upt by (simp add: less_Suc_eq_le)

lemma krylov_solve_unflagged:
  "\<not> k_error_on_nonconvergence prm \<Longrightarrow>
   krylov_solve prm step rnorm x0 = Inr (krylov_loop prm step rnorm (rnorm x0) 0 x0)"
  by (simp add: krylov_solve_def)

lemma linear_solve_unflagged:
  "\<not> k_error_on_nonconvergence kprm \<Longrightarrow>
   linear_solve kprm P w = Inr (best_effort_correction kprm P w)"
  by (simp add: linear_solve_def best_effort_correction_def krylov_solve_unflagged)

lemma linear_solves_return_unflagged:
  "\<not> k_error_on_nonconvergence kprm \<Longrightarrow> linear_solves_return kprm P"
  by (simp add: linear_solves_return_def linear_solve_unflagged)

lemma linear_solve_best:
  assumes "linear_solves_return kprm P"
  shows "linear_solve kprm P w = Inr (best_effort_correction kprm P w)"
proof -
  from assms obtain r where r: "linear_solve kprm P w = Inr r"
    unfolding linear_solves_return_def by blast
  then have "r = best_effort_correction kprm P w"
    by (auto simp add: linear_solve_def krylov_solve_def best_effort_correction_def Let_def
        split: if_splits)
  with r show ?thesis by simp
qed

lemma run_terminal: "terminal (state s) \<Longrightarrow> run prm kprm P s = s"
  by (simp add: run.simps[of prm kprm P s])

lemma run_step: "\<not> terminal (state s) \<Longrightarrow> run prm kprm P s = run prm kprm P (transition prm kprm P s)"
  by (simp add: run.simps[of prm kprm P s])

lemma run_specD:
  assumes "run_spec prm kprm P s t n"
  shows "iterate t = (next_iterate kprm P ^^ n) (iterate s)"
    "iteration_count t = iteration_count s + n"
    "iteration_count t \<le> maximum_iterations prm"
    "initial_norm t = initial_norm s"
    "krylov_count t =
       krylov_count s + (\<Sum>j<n. inner_iterations kprm P ((next_iterate kprm P ^^ j) (iterate s)))"
    "\<forall>j<n. \<not> below_tolerance
         (relative_residual (residual_norm P ((next_iterate kprm P ^^ j) (iterate s)))
            (initial_norm s)) (relative_tolerance prm)"
    "if below_tolerance (relative_residual (residual_norm P (iterate t)) (initial_norm s))
           (relative_tolerance prm)
      then state t = Converged
      else state t = MaxIterationsReached \<and> iteration_count t = maximum_iterations prm"
  using assms unfolding run_spec_def by blast+

lemma run_iterating:
  "state s = IteratingNewtonOrPicard \<Longrightarrow> iteration_count s \<le> maximum_iterations prm \<Longrightarrow>
   linear_solves_return kprm P \<Longrightarrow>
   \<exists>n. run_spec prm kprm P s (run prm kprm P s) n"
proof (induction prm kprm P s rule: run.induct)
  case (1 prm kprm P s)
  note assms = "1.prems"(3)
  have nt: "\<not> terminal (state s)" using "1.prems"(1) by (simp add: terminal_def)
  let ?b = "below_tolerance (relative_residual (residual_norm P (iterate s)) (initial_norm s))
              (relative_tolerance prm)"
  show ?case
  proof (cases ?b)
    case True
    then have "transition prm kprm P s = s\<lparr>state := Converged\<rparr>"
      using "1.prems"(1) by (simp add: transition_def)
    then have "run prm kprm P s = s\<lparr>state := Converged\<rparr>"
      using run_step[OF nt, of prm kprm P] by (simp add: run_terminal terminal_def)
    then have "run_spec prm kprm P s (run prm kprm P s) 0"
      using True "1.prems"(2) by (simp add: run_spec_def)
    then show ?thesis by blast
  next
    case nb: False
    show ?thesis
    proof (cases "maximum_iterations prm \<le> iteration_count s")
      case True
      then have "transition prm kprm P s = s\<lparr>state := MaxIterationsReached\<rparr>"
        using "1.prems"(1) nb by (simp add: transition_def)
      then have "run prm kprm P s = s\<lparr>state := MaxIterationsReached\<rparr>"
        using run_step[OF nt, of prm kprm P] by (simp add: run_terminal terminal_def)
      then have "run_spec prm kprm P s (run prm kprm P s) 0"
        using True nb "1.prems"(2) by (simp add: run_spec_def)
      then show ?thesis by blast
    next
      case False
      define s' where "s' = s\<lparr>iterate := next_iterate kprm P (iterate s),
                      iteration_count := Suc (iteration_count s),
                      krylov_count := krylov_count s + inner_iterations kprm P (iterate s)\<rparr>"
      have tr: "transition prm kprm P s = s'"
        using "1.prems"(1) nb False
        by (simp add: transition_def s'_def next_iterate_def inner_iterations_def
            linear_solve_best[OF assms])
      have "\<exists>n. run_spec prm kprm P s' (run prm kprm P s') n"
        using "1.IH"[OF nt] tr "1.prems"(1) False assms by (simp add: s'_def)
      then obtain n where n: "run_spec prm kprm P s' (run prm kprm P s') n" by blast
      have r: "run prm kprm P s = run prm kprm P s'" using run_step[OF nt, of prm kprm P] tr by simp
      have all: "\<forall>j<Suc n. \<not> below_tolerance
         (relative_residual (residual_norm P ((next_iterate kprm P ^^ j) (iterate s)))
            (initial_norm s)) (relative_tolerance prm)"
      proof (intro allI impI)
        fix j assume "j < Suc n"
        then show "\<not> below_tolerance
         (relative_residual (residual_norm P ((next_iterate kprm P ^^ j) (iterate s)))
            (initial_norm s)) (relative_tolerance prm)"
          using nb run_specD(6)[OF n] by (cases j) (auto simp add: s'_def funpow_swap1)
      qed
      define t where "t = run prm kprm P s'"
      define nx where "nx = next_iterate kprm P"
      have n': "run_spec prm kprm P s' t n" using n by (simp add: t_def)
      have s'f: "iterate s' = nx (iterate s)" "iteration_count s' = Suc (iteration_count s)"
        "initial_norm s' = initial_norm s"
        "krylov_count s' = krylov_count s + inner_iterations kprm P (iterate s)"
        by (simp_all add: s'_def nx_def)
      have f:
        "iterate t = (nx ^^ n) (nx (iterate s))"
        "iteration_count t = Suc (iteration_count s) + n"
        "iteration_count t \<le> maximum_iterations prm"
        "initial_norm t = initial_norm s"
        "krylov_count t = krylov_count s + inner_iterations kprm P (iterate s) +
           (\<Sum>j<n. inner_iterations kprm P ((nx ^^ j) (nx (iterate s))))"
        "if below_tolerance (relative_residual (residual_norm P (iterate t)) (initial_norm s))
              (relative_tolerance prm)
         then state t = Converged
         else state t = MaxIterationsReached \<and> iteration_count t = maximum_iterations prm"
        using run_specD[OF n'] unfolding s'f nx_def[symmetric] by blast+
      have i: "iterate t = (nx ^^ Suc n) (iterate s)"
        using f(1) by (simp add: funpow_swap1)
      have c: "iteration_count t = iteration_count s + Suc n" using f(2) by simp
      have k: "krylov_count t =
          krylov_count s + (\<Sum>j<Suc n. inner_iterations kprm P ((nx ^^ j) (iterate s)))"
        using f(5) by (simp del: sum.lessThan_Suc add: sum.lessThan_Suc_shift funpow_swap1)
      have "run_spec prm kprm P s t (Suc n)"
        unfolding run_spec_def nx_def[symmetric]
        using i c f(3) f(4) k all f(6) unfolding nx_def[symmetric] by blast
      then show ?thesis unfolding r t_def by blast
    qed
  qed
qed


lemma run_start:
  assumes "linear_solves_return kprm P"
  shows "\<exists>n. run_spec prm kprm P
           \<lparr>state = IteratingNewtonOrPicard, iterate = w0, iteration_count = 0,
            initial_norm = residual_norm P w0, krylov_count = 0\<rparr>
           (run prm kprm P (start w0)) n"
proof -
  let ?s1 = "\<lparr>state = IteratingNewtonOrPicard, iterate = w0, iteration_count = 0,
            initial_norm = residual_norm P w0, krylov_count = 0\<rparr>"
  have "transition prm kprm P (start w0) = ?s1" by (simp add: transition_def start_def)
  then have "run prm kprm P (start w0) = run prm kprm P ?s1"
    using run_step[of "start w0" prm kprm P] by (simp add: start_def terminal_def)
  moreover have "\<exists>n. run_spec prm kprm P ?s1 (run prm kprm P ?s1) n"
    by (rule run_iterating) (simp_all add: assms)
  ultimately show ?thesis by simp
qed

lemma nonlinear_solve_spec:
  assumes "linear_solves_return kprm P"
  obtains t n where "t = run prm kprm P (start w0)"
    "iterate t = (next_iterate kprm P ^^ n) w0" "iteration_count t = n"
    "n \<le> maximum_iterations prm"
    "krylov_count t = (\<Sum>j<n. inner_iterations kprm P ((next_iterate kprm P ^^ j) w0))"
    "\<forall>j<n. \<not> below_tolerance
         (relative_residual (residual_norm P ((next_iterate kprm P ^^ j) w0))
            (residual_norm P w0)) (relative_tolerance prm)"
    "if below_tolerance (relative_residual (residual_norm P (iterate t)) (residual_norm P w0))
           (relative_tolerance prm)
      then state t = Converged
      else state t = MaxIterationsReached \<and> n = maximum_iterations prm"
proof -
  from run_start[OF assms, of prm w0] obtain n where
    n: "run_spec prm kprm P
           \<lparr>state = IteratingNewtonOrPicard, iterate = w0, iteration_count = 0,
            initial_norm = residual_norm P w0, krylov_count = 0\<rparr>
           (run prm kprm P (start w0)) n" by blast
  show ?thesis
    using run_specD[OF n]
    by (intro that[of "run prm kprm P (start w0)" n]) (auto split: if_splits)
qed

lemma nonlinear_solve_run:
  "nonlinear_solve prm kprm P w0 =
     (let s = run prm kprm P (start w0)
      in if state s = Diverged then Inl LinearNonConvergence
         else if state s = MaxIterationsReached \<and> error_on_nonconvergence prm
         then Inl NonlinearNonConvergence
         else Inr \<lparr>final_state = state s, iterations = iteration_count s,
                   converged = (state s = Converged), solution = iterate s,
                   krylov_iterations = krylov_count s\<rparr>)"
  by (simp add: nonlinear_solve_def)

lemma nonlinear_solve_returns:
  assumes "\<not> error_on_nonconvergence prm" "linear_solves_return kprm P"
  shows "\<exists>res. nonlinear_solve prm kprm P w0 = Inr res \<and>
     (if below_tolerance
           (relative_residual (residual_norm P (solution res)) (residual_norm P w0))
           (relative_tolerance prm)
      then final_state res = Converged \<and> converged res
      else final_state res = MaxIterationsReached \<and> \<not> converged res \<and>
           iterations res = maximum_iterations prm) \<and>
     iterations res \<le> maximum_iterations prm \<and>
     solution res = (next_iterate kprm P ^^ iterations res) w0 \<and>
     (\<forall>j<iterations res. \<not> below_tolerance
         (relative_residual (residual_norm P ((next_iterate kprm P ^^ j) w0))
            (residual_norm P w0)) (relative_tolerance prm)) \<and>
     krylov_iterations res =
       (\<Sum>j<iterations res. inner_iterations kprm P ((next_iterate kprm P ^^ j) w0))"
proof -
  obtain t n where t: "t = run prm kprm P (start w0)"
    "iterate t = (next_iterate kprm P ^^ n) w0" "iteration_count t = n"
    "n \<le> maximum_iterations prm"
    "krylov_count t = (\<Sum>j<n. inner_iterations kprm P ((next_iterate kprm P ^^ j) w0))"
    "\<forall>j<n. \<not> below_tolerance
         (relative_residual (residual_norm P ((next_iterate kprm P ^^ j) w0))
            (residual_norm P w0)) (relative_tolerance prm)"
    "if below_tolerance (relative_residual (residual_norm P (iterate t)) (residual_norm P w0))
           (relative_tolerance prm)
      then state t = Converged
      else state t = MaxIterationsReached \<and> n = maximum_iterations prm"
    using nonlinear_solve_spec[OF assms(2), of prm w0] by blast
  define res where "res = \<lparr>final_state = state t, iterations = iteration_count t,
                   converged = (state t = Converged), solution = iterate t,
                   krylov_iterations = krylov_count t\<rparr>"
  have nd: "state t \<noteq> Diverged" using t(7) by (auto split: if_splits)
  have "nonlinear_solve prm kprm P w0 = Inr res"
    using nd assms(1) by (simp add: nonlinear_solve_run t(1)[symmetric] res_def)
  moreover have "if below_tolerance
           (relative_residual (residual_norm P (solution res)) (residual_norm P w0))
           (relative_tolerance prm)
      then final_state res = Converged \<and> converged res
      else final_state res = MaxIterationsReached \<and> \<not> converged res \<and>
           iterations res = maximum_iterations prm"
    using t(7) t(3) by (auto simp add: res_def split: if_splits)
  moreover have "iterations res \<le> maximum_iterations prm" using t(3,4) by (simp add: res_def)
  moreover have "solution res = (next_iterate kprm P ^^ iterations res) w0"
    using t(2,3) by (simp add: res_def)
  moreover have "\<forall>j<iterations res. \<not> below_tolerance
         (relative_residual (residual_norm P ((next_iterate kprm P ^^ j) w0))
            (residual_norm P w0)) (relative_tolerance prm)"
    using t(6,3) by (simp add: res_def)
  moreover have "krylov_iterations res =
       (\<Sum>j<iterations res. inner_iterations kprm P ((next_iterate kprm P ^^ j) w0))"
    using t(5,3) by (simp add: res_def)
  ultimately show ?thesis by blast
qed

lemma nonlinear_solve_stalled:
  assumes "linear_solves_return kprm P"
    and "stalled (next_iterate kprm P) (residual_norm P) (relative_tolerance prm)
           (maximum_iterations prm) w0"
  shows "nonlinear_solve prm kprm P w0 =
     (if error_on_nonconvergence prm then Inl NonlinearNonConvergence
      else Inr \<lparr>final_state = MaxIterationsReached, iterations = maximum_iterations prm,
                converged = False,
                solution = (next_iterate kprm P ^^ maximum_iterations prm) w0,
                krylov_iterations =
                  (\<Sum>j<maximum_iterations prm.
                      inner_iterations kprm P ((next_iterate kprm P ^^ j) w0))\<rparr>)"
proof -
  obtain t n where t: "t = run prm kprm P (start w0)"
    "iterate t = (next_iterate kprm P ^^ n) w0" "iteration_count t = n"
    "n \<le> maximum_iterations prm"
    "krylov_count t = (\<Sum>j<n. inner_iterations kprm P ((next_iterate kprm P ^^ j) w0))"
    "\<forall>j<n. \<not> below_tolerance
         (relative_residual (residual_norm P ((next_iterate kprm P ^^ j) w0))
            (residual_norm P w0)) (relative_tolerance prm)"
    "if below_tolerance (relative_residual (residual_norm P (iterate t)) (residual_norm P w0))
           (relative_tolerance prm)
      then state t = Converged
      else state t = MaxIterationsReached \<and> n = maximum_iterations prm"
    using nonlinear_solve_spec[OF assms(1), of prm w0] by blast
  have "\<not> below_tolerance (relative_residual (residual_norm P (iterate t)) (residual_norm P w0))
           (relative_tolerance prm)"
    using stalledD[OF assms(2) t(4)] t(2) by simp
  then have m: "state t = MaxIterationsReached" "n = maximum_iterations prm"
    using t(7) by simp_all
  show ?thesis
    using m t(2,3,5) by (simp add: nonlinear_solve_run t(1)[symmetric])
qed

lemma nonlinear_solve_error:
  assumes "nonlinear_solve prm kprm P w0 = Inl e"
  shows "error_on_nonconvergence prm \<or> k_error_on_nonconvergence kprm"
proof (rule ccontr)
  assume "\<not> (error_on_nonconvergence prm \<or> k_error_on_nonconvergence kprm)"
  then have "\<exists>res. nonlinear_solve prm kprm P w0 = Inr res"
    using nonlinear_solve_returns[of prm kprm P w0] linear_solves_return_unflagged[of kprm P]
    by blast
  with assms show False by simp
qed

lemma krylov_solve_stalled:
  assumes "stalled step rnorm (k_relative_tolerance prm) (k_maximum_iterations prm) x0"
  shows "krylov_solve prm step rnorm x0 =
     (if k_error_on_nonconvergence prm then Inl LinearNonConvergence
      else Inr \<lparr>k_solution = (step ^^ k_maximum_iterations prm) x0, k_converged = False,
                k_relative_residual =
                  relative_residual (rnorm ((step ^^ k_maximum_iterations prm) x0)) (rnorm x0),
                k_iterations = k_maximum_iterations prm\<rparr>)"
proof -
  define res where "res = krylov_loop prm step rnorm (rnorm x0) 0 x0"
  from krylov_loop_spec[of prm step rnorm "rnorm x0" 0 x0] obtain n where n:
    "k_iterations res = n" "k_solution res = (step ^^ n) x0"
    "k_relative_residual res = relative_residual (rnorm ((step ^^ n) x0)) (rnorm x0)"
    "k_converged res =
       below_tolerance (relative_residual (rnorm ((step ^^ n) x0)) (rnorm x0))
         (k_relative_tolerance prm)"
    "k_converged res \<or> k_maximum_iterations prm \<le> n"
    "n \<le> k_maximum_iterations prm"
    unfolding res_def by auto
  have nc: "\<not> k_converged res" using stalledD[OF assms n(6)] n(4) by simp
  then have nm: "n = k_maximum_iterations prm" using n(5,6) by simp
  have "res = \<lparr>k_solution = (step ^^ k_maximum_iterations prm) x0, k_converged = False,
                k_relative_residual =
                  relative_residual (rnorm ((step ^^ k_maximum_iterations prm) x0)) (rnorm x0),
                k_iterations = k_maximum_iterations prm\<rparr>"
    using n(1,2,3) nc nm by (cases res) simp
  then show ?thesis using nc by (simp add: krylov_solve_def res_def[symmetric])
qed

lemma krylov_solve_error:
  "krylov_solve prm step rnorm x0 = Inl e \<Longrightarrow> k_error_on_nonconvergence prm"
  by (auto simp add: krylov_solve_def Let_def split: if_splits)

lemma demo_inner_parameters:
  "krylov_parameters_of (fs_parameters (demo_inner_solver d)) =
     Some \<lparr>k_relative_tolerance = 1 / 10 ^ 6, k_maximum_iterations = 100,
           k_error_on_nonconvergence = False\<rparr>"
  by (simp add: krylov_parameters_of_def demo_inner_solver_def FieldSplitSolver_def)

lemma demo_nonlinear_parameters:
  "nonlinear_parameters_of (demo_solver_parameters d) =
     Some \<lparr>relative_tolerance = 1 / 10 ^ 5, maximum_iterations = 25,
           error_on_nonconvergence = False\<rparr>"
  by (simp add: nonlinear_parameters_of_def demo_solver_parameters_def)

lemma stalled_problem_stalls:
  "stalled (next_iterate kprm stalled_problem) (residual_norm stalled_problem) (1 / 10 ^ 5) n w0"
  by (simp add: stalled_def list_all_iff stalled_problem_def relative_residual_def
      below_tolerance_def)




text \<open>
  Claim C7. With its error-on-nonconvergence flag false (the default, which the demo sets
  for both solvers), a solve that exceeds its iteration budget does not raise: the Krylov
  solve returns the vector reached after the maximum number of iterations with
  \<open>converged = False\<close>, and so does the nonlinear solve when no linear solve raises. A
  solve raises only when a flag is set; with the flag set, the same solve is a fatal error.
\<close>

theorem nonconvergence_is_reported:
  "(\<not> k_error_on_nonconvergence kprm \<longrightarrow>
      (\<exists>res. krylov_solve kprm step rnorm x0 = Inr res)) \<and>
   (stalled step rnorm (k_relative_tolerance kprm) (k_maximum_iterations kprm) x0 \<longrightarrow>
      krylov_solve kprm step rnorm x0 =
        (if k_error_on_nonconvergence kprm then Inl LinearNonConvergence
         else Inr \<lparr>k_solution = (step ^^ k_maximum_iterations kprm) x0, k_converged = False,
                   k_relative_residual =
                     relative_residual (rnorm ((step ^^ k_maximum_iterations kprm) x0)) (rnorm x0),
                   k_iterations = k_maximum_iterations kprm\<rparr>)) \<and>
   (\<forall>e. krylov_solve kprm step rnorm x0 = Inl e \<longrightarrow> k_error_on_nonconvergence kprm) \<and>
   (\<not> error_on_nonconvergence prm \<and> linear_solves_return kprm P \<longrightarrow>
      (\<exists>res. nonlinear_solve prm kprm P w0 = Inr res)) \<and>
   (linear_solves_return kprm P \<and>
    stalled (next_iterate kprm P) (residual_norm P) (relative_tolerance prm)
      (maximum_iterations prm) w0 \<longrightarrow>
      nonlinear_solve prm kprm P w0 =
        (if error_on_nonconvergence prm then Inl NonlinearNonConvergence
         else Inr \<lparr>final_state = MaxIterationsReached, iterations = maximum_iterations prm,
                   converged = False,
                   solution = (next_iterate kprm P ^^ maximum_iterations prm) w0,
                   krylov_iterations =
                     (\<Sum>j<maximum_iterations prm.
                         inner_iterations kprm P ((next_iterate kprm P ^^ j) w0))\<rparr>)) \<and>
   (\<forall>e. nonlinear_solve prm kprm P w0 = Inl e \<longrightarrow>
      error_on_nonconvergence prm \<or> k_error_on_nonconvergence kprm) \<and>
   krylov_parameters_of (fs_parameters (demo_inner_solver d)) =
     Some \<lparr>k_relative_tolerance = 1 / 10 ^ 6, k_maximum_iterations = 100,
           k_error_on_nonconvergence = False\<rparr> \<and>
   nonlinear_parameters_of (demo_solver_parameters d') =
     Some \<lparr>relative_tolerance = 1 / 10 ^ 5, maximum_iterations = 25,
           error_on_nonconvergence = False\<rparr>"
proof -
  have "\<not> k_error_on_nonconvergence kprm \<longrightarrow>
      (\<exists>res. krylov_solve kprm step rnorm x0 = Inr res)"
    by (simp add: krylov_solve_unflagged)
  moreover have "\<forall>e. krylov_solve kprm step rnorm x0 = Inl e \<longrightarrow>
      k_error_on_nonconvergence kprm"
    using krylov_solve_error[of kprm step rnorm x0] by blast
  moreover have "\<not> error_on_nonconvergence prm \<and> linear_solves_return kprm P \<longrightarrow>
      (\<exists>res. nonlinear_solve prm kprm P w0 = Inr res)"
    using nonlinear_solve_returns[of prm kprm P w0] by blast
  moreover have "\<forall>e. nonlinear_solve prm kprm P w0 = Inl e \<longrightarrow>
      error_on_nonconvergence prm \<or> k_error_on_nonconvergence kprm"
    using nonlinear_solve_error[of prm kprm P w0] by blast
  ultimately show ?thesis
    using krylov_solve_stalled[of step rnorm kprm x0]
      nonlinear_solve_stalled[of kprm P prm w0]
      demo_inner_parameters[of d] demo_nonlinear_parameters[of d']
    by blast
qed

theorem nonconvergence_is_reported_witness:
  "\<not> k_error_on_nonconvergence
       \<lparr>k_relative_tolerance = 1 / 10 ^ 6, k_maximum_iterations = 100,
        k_error_on_nonconvergence = False\<rparr> \<and>
   stalled (\<lambda>v. v) (\<lambda>v::real. 1)
     (k_relative_tolerance \<lparr>k_relative_tolerance = 1 / 10 ^ 6, k_maximum_iterations = 100,
        k_error_on_nonconvergence = False\<rparr>)
     (k_maximum_iterations \<lparr>k_relative_tolerance = 1 / 10 ^ 6, k_maximum_iterations = 100,
        k_error_on_nonconvergence = False\<rparr>) 0 \<and>
   (\<exists>res. krylov_solve
       \<lparr>k_relative_tolerance = 1 / 10 ^ 6, k_maximum_iterations = 100,
        k_error_on_nonconvergence = False\<rparr> (\<lambda>v. v) (\<lambda>v::real. 1) 0 = Inr res \<and>
      \<not> k_converged res \<and> k_iterations res = 100) \<and>
   \<not> error_on_nonconvergence
       \<lparr>relative_tolerance = 1 / 10 ^ 5, maximum_iterations = 25,
        error_on_nonconvergence = False\<rparr> \<and>
   linear_solves_return
       \<lparr>k_relative_tolerance = 1 / 10 ^ 6, k_maximum_iterations = 100,
        k_error_on_nonconvergence = False\<rparr> stalled_problem \<and>
   stalled
       (next_iterate \<lparr>k_relative_tolerance = 1 / 10 ^ 6, k_maximum_iterations = 100,
                      k_error_on_nonconvergence = False\<rparr> stalled_problem)
       (residual_norm stalled_problem)
       (relative_tolerance \<lparr>relative_tolerance = 1 / 10 ^ 5, maximum_iterations = 25,
        error_on_nonconvergence = False\<rparr>)
       (maximum_iterations \<lparr>relative_tolerance = 1 / 10 ^ 5, maximum_iterations = 25,
        error_on_nonconvergence = False\<rparr>) 0 \<and>
   (\<exists>res. nonlinear_solve
       \<lparr>relative_tolerance = 1 / 10 ^ 5, maximum_iterations = 25,
        error_on_nonconvergence = False\<rparr>
       \<lparr>k_relative_tolerance = 1 / 10 ^ 6, k_maximum_iterations = 100,
        k_error_on_nonconvergence = False\<rparr> stalled_problem 0 = Inr res \<and>
      \<not> converged res \<and> iterations res = 25 \<and> final_state res = MaxIterationsReached)"
proof -
  define prm where "prm = \<lparr>relative_tolerance = 1 / 10 ^ 5, maximum_iterations = 25,
        error_on_nonconvergence = False\<rparr>"
  define kprm where "kprm = \<lparr>k_relative_tolerance = 1 / 10 ^ 6, k_maximum_iterations = 100,
        k_error_on_nonconvergence = False\<rparr>"
  note inst = nonconvergence_is_reported[of kprm "\<lambda>v. v" "\<lambda>v::real. 1" 0 prm stalled_problem 0
      Map.empty Map.empty]
  have k: "\<not> k_error_on_nonconvergence kprm" by (simp add: kprm_def)
  have n: "\<not> error_on_nonconvergence prm" by (simp add: prm_def)
  have km: "k_maximum_iterations kprm = 100" by (simp add: kprm_def)
  have nm: "maximum_iterations prm = 25" by (simp add: prm_def)
  have ks: "stalled (\<lambda>v. v) (\<lambda>v::real. 1) (k_relative_tolerance kprm) (k_maximum_iterations kprm) 0"
    by (simp add: stalled_def list_all_iff relative_residual_def below_tolerance_def kprm_def)
  have r: "linear_solves_return kprm stalled_problem"
    by (rule linear_solves_return_unflagged) (rule k)
  have ns: "stalled (next_iterate kprm stalled_problem) (residual_norm stalled_problem)
     (relative_tolerance prm) (maximum_iterations prm) 0"
    using stalled_problem_stalls[of kprm "maximum_iterations prm" 0] by (simp add: prm_def)
  have "krylov_solve kprm (\<lambda>v. v) (\<lambda>v::real. 1) 0 =
        (if k_error_on_nonconvergence kprm then Inl LinearNonConvergence
         else Inr \<lparr>k_solution = ((\<lambda>v. v) ^^ k_maximum_iterations kprm) 0, k_converged = False,
                   k_relative_residual =
                     relative_residual ((\<lambda>v::real. 1) (((\<lambda>v. v) ^^ k_maximum_iterations kprm) 0)) ((\<lambda>v::real. 1) 0),
                   k_iterations = k_maximum_iterations kprm\<rparr>)"
    using inst ks by blast
  then have kr: "\<exists>res. krylov_solve kprm (\<lambda>v. v) (\<lambda>v::real. 1) 0 = Inr res \<and>
      \<not> k_converged res \<and> k_iterations res = 100"
    using k km by simp
  have "nonlinear_solve prm kprm stalled_problem 0 =
        (if error_on_nonconvergence prm then Inl NonlinearNonConvergence
         else Inr \<lparr>final_state = MaxIterationsReached, iterations = maximum_iterations prm,
                   converged = False,
                   solution = (next_iterate kprm stalled_problem ^^ maximum_iterations prm) 0,
                   krylov_iterations =
                     (\<Sum>j<maximum_iterations prm.
                         inner_iterations kprm stalled_problem ((next_iterate kprm stalled_problem ^^ j) 0))\<rparr>)"
    using inst r ns by blast
  then have nr: "\<exists>res. nonlinear_solve prm kprm stalled_problem 0 = Inr res \<and>
      \<not> converged res \<and> iterations res = 25 \<and> final_state res = MaxIterationsReached"
    using n nm by simp
  show ?thesis using k n ks r ns kr nr unfolding prm_def kprm_def by blast
qed


subsection \<open>The configuration of the Krylov solver\<close>

lemma demo_inner_configuration:
  "fs_krylov_type (demo_inner_solver d) = ''gmres'' \<and>
   fs_parameters (demo_inner_solver d) [''preconditioner'', ''side''] = Some (PStr ''right'') \<and>
   fs_parameters (demo_inner_solver d) [''preconditioner'', ''fieldsplit'', ''type''] =
     Some (PStr ''schur'') \<and>
   fs_parameters (demo_inner_solver d) [''preconditioner'', ''fieldsplit'', ''schur'', ''fact_type''] =
     Some (PStr ''upper'') \<and>
   fs_parameters (demo_inner_solver d) [''relative_tolerance''] = Some (PReal (1 / 10 ^ 6)) \<and>
   fs_parameters (demo_inner_solver d) [''maximum_iterations''] = Some (PInt 100) \<and>
   fs_parameters (demo_inner_solver d) [''gmres'', ''restart''] = Some (PInt 100) \<and>
   restart_in_range (fs_parameters (demo_inner_solver d) [''gmres'', ''restart''])"
  by (simp add: demo_inner_solver_def FieldSplitSolver_def restart_in_range_def)

lemma create_solver_configuration:
  assumes "ls = ''direct'' \<or> ls = ''iterative''"
  shows "\<exists>S. create_solver opts ld nd rnd v ls dbg = Inr S \<and>
     ns_linear_parameters S [''relative_tolerance''] = Some (PReal (1 / 10 ^ 6)) \<and>
     ns_options S (ns_prefix S @ ''ksp_gmres_restart'') = Some (PInt 150) \<and>
     restart_in_range (ns_options S (ns_prefix S @ ''ksp_gmres_restart''))"
  using assms
  by (auto simp add: create_solver_def Let_def restart_in_range_def)

text \<open>
  Claim C6. The field-split solver of the demo is GMRES, preconditioned on the right by a
  Schur-complement field split with the upper triangular factorization, with relative
  tolerance \<open>1e-6\<close>, at most 100 iterations and restart length 100; the benchmark sets
  the relative tolerance \<open>1e-6\<close> and the restart length 150 on its Krylov solver. Both
  restart lengths are between 100 and 150.
\<close>

theorem krylov_solver_configuration:
  "fs_krylov_type (demo_inner_solver d) = ''gmres'' \<and>
   fs_parameters (demo_inner_solver d) [''preconditioner'', ''side''] = Some (PStr ''right'') \<and>
   fs_parameters (demo_inner_solver d) [''preconditioner'', ''fieldsplit'', ''type''] =
     Some (PStr ''schur'') \<and>
   fs_parameters (demo_inner_solver d) [''preconditioner'', ''fieldsplit'', ''schur'', ''fact_type''] =
     Some (PStr ''upper'') \<and>
   fs_parameters (demo_inner_solver d) [''relative_tolerance''] = Some (PReal (1 / 10 ^ 6)) \<and>
   fs_parameters (demo_inner_solver d) [''maximum_iterations''] = Some (PInt 100) \<and>
   fs_parameters (demo_inner_solver d) [''gmres'', ''restart''] = Some (PInt 100) \<and>
   restart_in_range (fs_parameters (demo_inner_solver d) [''gmres'', ''restart'']) \<and>
   (ls = ''direct'' \<or> ls = ''iterative'' \<longrightarrow>
      (\<exists>S. create_solver opts ld nd rnd v ls dbg = Inr S \<and>
         ns_linear_parameters S [''relative_tolerance''] = Some (PReal (1 / 10 ^ 6)) \<and>
         ns_options S (ns_prefix S @ ''ksp_gmres_restart'') = Some (PInt 150) \<and>
         restart_in_range (ns_options S (ns_prefix S @ ''ksp_gmres_restart''))))"
  using demo_inner_configuration[of d] create_solver_configuration[of ls opts ld nd rnd v dbg]
  by blast

theorem krylov_solver_configuration_witness:
  "(''direct'' = ''direct'' \<or> ''direct'' = ''iterative'') \<and>
   fs_krylov_type (demo_inner_solver Map.empty) = ''gmres'' \<and>
   restart_in_range (fs_parameters (demo_inner_solver Map.empty) [''gmres'', ''restart'']) \<and>
   (\<exists>S. create_solver Map.empty Map.empty Map.empty ''0123abcd'' ''BRM1'' ''direct'' False = Inr S \<and>
         ns_linear_parameters S [''relative_tolerance''] = Some (PReal (1 / 10 ^ 6)) \<and>
         ns_options S (ns_prefix S @ ''ksp_gmres_restart'') = Some (PInt 150) \<and>
         restart_in_range (ns_options S (ns_prefix S @ ''ksp_gmres_restart'')))"
proof -
  have h: "''direct'' = ''direct'' \<or> ''direct'' = ''iterative''" by simp
  from krylov_solver_configuration[of Map.empty "''direct''" Map.empty Map.empty Map.empty
      "''0123abcd''" "''BRM1''" False] h
  show ?thesis by blast
qed


subsection \<open>The demo as a script\<close>

lemma exec_stmt_executed:
  "exec_stmt env argv line s st = Inr st' \<Longrightarrow> st_executed st' = st_executed st"
  by (auto simp add: exec_stmt_def library_call_def
      split: stmt.splits call_outcome.splits sum.splits option.splits if_splits)

lemma run_script_stops_at_exit:
  "run_script env argv (pre @ (l, Exit) # post) st = (st', out) \<Longrightarrow>
   out \<noteq> EndOfFile \<and> set (st_executed st') \<subseteq> set (st_executed st) \<union> fst ` set pre \<union> {l}"
proof (induction pre arbitrary: st)
  case Nil
  then show ?case by (auto simp add: exec_stmt_def)
next
  case (Cons p pre)
  obtain line s where p: "p = (line, s)" by (cases p)
  let ?st1 = "st\<lparr>st_executed := st_executed st @ [line]\<rparr>"
  show ?case
  proof (cases "exec_stmt env argv line s ?st1")
    case (Inl o1)
    then have "st' = ?st1" "out = o1" using Cons.prems p by auto
    moreover have "o1 \<noteq> EndOfFile" using Inl
      by (auto simp add: exec_stmt_def library_call_def
          split: stmt.splits call_outcome.splits sum.splits option.splits if_splits)
    ultimately show ?thesis using p by auto
  next
    case (Inr st2)
    then have r: "run_script env argv (pre @ (l, Exit) # post) st2 = (st', out)"
      using Cons.prems p by simp
    have e: "st_executed st2 = st_executed st @ [line]"
      using exec_stmt_executed[OF Inr] by simp
    from Cons.IH[OF r] show ?thesis using e p by auto
  qed
qed

lemma demo_script_split:
  "demo_script = take 10 demo_script @ (80, Exit) # drop 11 demo_script"
  by (simp add: demo_script_def)

lemma demo_prefix_lines: "fst ` set (take 10 demo_script) = {23, 27, 31, 40, 56, 59, 61, 65, 78, 79}"
  by (simp add: demo_script_def) 

lemma executed_up_to_exit:
  "snd (run_demo env argv) \<noteq> EndOfFile \<and>
   set (st_executed (fst (run_demo env argv))) \<subseteq> {23, 27, 31, 40, 56, 59, 61, 65, 78, 79, 80}"
proof -
  obtain st' out where r: "run_demo env argv = (st', out)" by (cases "run_demo env argv")
  then have "run_script env argv (take 10 demo_script @ (80, Exit) # drop 11 demo_script)
      initial_state = (st', out)"
    using demo_script_split by (simp add: run_demo_def)
  from run_script_stops_at_exit[OF this]
  have "out \<noteq> EndOfFile"
    "set (st_executed st') \<subseteq> {23, 27, 31, 40, 56, 59, 61, 65, 78, 79} \<union> {80}"
    by (simp_all add: demo_prefix_lines initial_state_def)
  then show ?thesis using r by auto
qed

lemma reaches_exit:
  assumes "env_parse_args env argv = Inr a"
    "calls_return env [23, 27, 31, 40, 66, 78, 79]" "env_mesh env = Some m"
  shows "snd (run_demo env argv) = SystemExit 80 0 \<and>
         st_executed (fst (run_demo env argv)) = [23, 27, 31, 40, 56, 59, 61, 65, 78, 79, 80]"
  using assms
  by (simp add: run_demo_def demo_script_def initial_state_def exec_stmt_def library_call_def
      calls_return_def)

text \<open>
  Claim C2, as the code has it. For every command line and every behaviour of the
  libraries, a run of the demo never reaches the code after \<^verbatim>\<open>exit()\<close> on line 80: every
  statement it starts is at a line up to 80, so the function spaces (line 82), the solvers
  (lines 179, 216), \<^verbatim>\<open>solver.solve\<close> (line 228) and the saving of the results (line 237)
  are not reached, and the run does not get to the end of the file. When argparse accepts
  the command line, the mesh file is read and the library calls before line 80 return, the
  run ends at \<^verbatim>\<open>exit()\<close> on line 80, right after \<^verbatim>\<open>plot(mesh)\<close> and
  \<^verbatim>\<open>interactive()\<close>.
\<close>

theorem code_after_exit_unreachable:
  "snd (run_demo env argv) \<noteq> EndOfFile \<and>
   (\<forall>l \<in> set (st_executed (fst (run_demo env argv))). l \<le> 80) \<and>
   (82, Library ''VectorFunctionSpace, FunctionSpace'') \<in> set demo_script \<and>
   (179, Library ''FieldSplitSolver'') \<in> set demo_script \<and>
   (216, Library ''NonlinearSolver'') \<in> set demo_script \<and>
   (228, Library ''solver.solve'') \<in> set demo_script \<and>
   (237, Library ''File << u, p'') \<in> set demo_script \<and>
   set (st_executed (fst (run_demo env argv))) \<inter> {82, 179, 216, 228, 237} = {} \<and>
   (env_parse_args env argv = Inr a \<and> calls_return env [23, 27, 31, 40, 66, 78, 79] \<and>
    env_mesh env = Some m \<longrightarrow>
      snd (run_demo env argv) = SystemExit 80 0 \<and>
      st_executed (fst (run_demo env argv)) = [23, 27, 31, 40, 56, 59, 61, 65, 78, 79, 80])"
proof -
  have e: "snd (run_demo env argv) \<noteq> EndOfFile"
    "set (st_executed (fst (run_demo env argv))) \<subseteq> {23, 27, 31, 40, 56, 59, 61, 65, 78, 79, 80}"
    using executed_up_to_exit[of env argv] by simp_all
  have "\<forall>l \<in> set (st_executed (fst (run_demo env argv))). l \<le> 80"
    using e(2) by auto
  moreover have "set (st_executed (fst (run_demo env argv))) \<inter> {82, 179, 216, 228, 237} = {}"
    using e(2) by auto
  moreover have "(82, Library ''VectorFunctionSpace, FunctionSpace'') \<in> set demo_script"
    "(179, Library ''FieldSplitSolver'') \<in> set demo_script"
    "(216, Library ''NonlinearSolver'') \<in> set demo_script"
    "(228, Library ''solver.solve'') \<in> set demo_script"
    "(237, Library ''File << u, p'') \<in> set demo_script"
    by (simp_all add: demo_script_def)
  ultimately show ?thesis using e(1) reaches_exit[of env argv a m] by blast
qed

lemma parse_no_arguments: "parse_args [] = Inr default_args"
  by (simp add: parse_args_def)

theorem code_after_exit_unreachable_witness:
  "env_parse_args all_return [] = Inr default_args \<and>
   calls_return all_return [23, 27, 31, 40, 66, 78, 79] \<and>
   env_mesh all_return = Some [(-1, -1, 0), (0, 0, 0), (5, 1, 1)] \<and>
   snd (run_demo all_return []) = SystemExit 80 0 \<and>
   st_executed (fst (run_demo all_return [])) = [23, 27, 31, 40, 56, 59, 61, 65, 78, 79, 80] \<and>
   set (st_executed (fst (run_demo all_return []))) \<inter> {82, 179, 216, 228, 237} = {}"
proof -
  have p: "env_parse_args all_return [] = Inr default_args"
    by (simp add: all_return_def parse_no_arguments)
  have c: "calls_return all_return [23, 27, 31, 40, 66, 78, 79]"
    by (simp add: all_return_def calls_return_def)
  have m: "env_mesh all_return = Some [(-1, -1, 0), (0, 0, 0), (5, 1, 1)]"
    by (simp add: all_return_def)
  from code_after_exit_unreachable[of all_return "[]" default_args "[(-1, -1, 0), (0, 0, 0), (5, 1, 1)]"]
    p c m
  show ?thesis by blast
qed

text \<open>
  The claim as it is written holds for every command line. The command line
  \<^verbatim>\<open>--nls Foo\<close> is rejected by argparse (\<^verbatim>\<open>Foo\<close> is not among the choices of
  \<^verbatim>\<open>--nls\<close>): the run ends at line 56 with status 2 and never gets to line 80.
\<close>

theorem rejected_arguments_exit_at_parse:
  "run_demo all_return [''--nls'', ''Foo''] =
     (\<lparr>st_args = None, st_mesh = [], st_coordinates = None,
       st_executed = [23, 27, 31, 40, 56]\<rparr>,
      SystemExit 56 2)"
  by (simp add: run_demo_def demo_script_def initial_state_def exec_stmt_def library_call_def
      all_return_def parse_args_def takes_value_def looks_like_option_def store_def
      nls_choices_def)


end
